theory Spec2Isabelle
  imports Complex_Main "HOL-Library.Word" "HOL-Library.AList"
begin

section \<open>Data model\<close>

text \<open>
  A shallow embedding of \<^verbatim>\<open>deepdrivemd/applications/openmm_simulation/app.py\<close>.
  The application object (\<^verbatim>\<open>MDSimulationApplication\<close>) is a record that is passed
  in and returned updated; the files it reads and writes live in an association list
  from paths to file contents, whose order is the directory listing order seen by
  \<^verbatim>\<open>glob\<close>. A raised exception is the left summand of the result and carries the state
  the object is in when the exception leaves the method. Python floats are the reals
  they stand for; the arithmetic on them is the library's and not the program's own.
  OpenMM and MDAnalysis are outside the repository: the engine object records the
  calls made on it, and the numerical kernels (frame of the engine, atom selection,
  rigid fit, distance test, RMSD, quotient of quantities) are fields of an environment
  record.
\<close>

type_synonym path = "string list"

definition path_name :: "path \<Rightarrow> string" where
  "path_name p = (if p = [] then [] else last p)"

definition path_parent :: "path \<Rightarrow> path" where
  "path_parent p = butlast p"

type_synonym coord = "real \<times> real \<times> real"

record frame =
  positions :: "coord list"
  dimensions :: "real list option"

type_synonym atoms = "string list"

datatype file_content =
    PDB atoms frame
  | DCD "frame list"
  | Prmtop atoms
  | NpyContactMaps "16 word list list"
  | NpyRmsds "real list"

type_synonym filesystem = "(path \<times> file_content) list"

definition fs_read :: "filesystem \<Rightarrow> path \<Rightarrow> file_content option" where
  "fs_read fs p = map_of fs p"

definition fs_write :: "filesystem \<Rightarrow> path \<Rightarrow> file_content \<Rightarrow> filesystem" where
  "fs_write fs p c = AList.update p c fs"

datatype error =
    RuntimeError string
  | AssertionError
  | AttributeError
  | StopIteration
  | IndexError
  | FileNotFoundError path
  | ParseError path
  | ValueError string
  | SelectionError
  | ZeroDivisionError
  | OpenMMException string

datatype platform = CUDA | OpenCL | CPU

datatype barostat = MonteCarloBarostat | MonteCarloAnisotropicBarostat

datatype system = AmberImplicitPrmtop | AmberImplicitForceField | AmberExplicit barostat

record integrator =
  temperature :: real
  friction :: real
  timestep :: real
  constraint_tolerance :: "real option"

datatype reporter = DCDReporter path int | StateDataReporter path int

record simulation =
  topology :: atoms
  system :: system
  integrator :: integrator
  platform :: platform
  platform_properties :: "(string \<times> string) list"
  context_positions :: "coord list option"
  minimized :: bool
  velocities :: "(real \<times> int) option"
  currentStep :: nat
  reporters :: "reporter list"

text \<open>
  What the process finds around it: the OpenMM platforms that load, the value
  \<^verbatim>\<open>random.randint(1, 10000)\<close> returns, the frame the engine reports in a given state,
  the MDAnalysis kernels, and the floating-point quotient that \<^verbatim>\<open>openmm.unit\<close> gives for
  a picosecond quantity divided by a picosecond quantity and for a nanosecond quantity
  divided by a picosecond quantity.
\<close>

record env =
  available :: "platform list"
  seed :: int
  engine_frame :: "simulation \<Rightarrow> frame"
  matches :: "string \<Rightarrow> nat \<Rightarrow> string \<Rightarrow> bool"
  fit :: "coord list \<Rightarrow> coord list \<Rightarrow> coord \<Rightarrow> coord"
  in_contact :: "real list option \<Rightarrow> real \<Rightarrow> coord \<Rightarrow> coord \<Rightarrow> bool"
  rmsd :: "coord list \<Rightarrow> coord list \<Rightarrow> real"
  ps_per_ps :: "real \<Rightarrow> real \<Rightarrow> real"
  ns_per_ps :: "real \<Rightarrow> real \<Rightarrow> real"

text \<open>
  The fields of \<^verbatim>\<open>MDSimulationSettings\<close> that \<^verbatim>\<open>app.py\<close> reads. The class itself is
  declared outside \<^verbatim>\<open>app.py\<close>.

  Modelled from the spec: \<open>device_index\<close> is the compute-device index that the
  configuration surface of section 6 lists; \<^verbatim>\<open>app.py\<close> reads no such field.
\<close>

record settings =
  solvent_type :: string
  dt_ps :: real
  temperature_kelvin :: real
  heat_bath_friction_coef :: real
  report_interval_ps :: real
  simulation_length_ns :: real
  rmsd_reference_pdb :: path
  mda_selection :: string
  cutoff_angstrom :: real
  device_index :: int

datatype simulation_start =
    ContinueSimulation
  | SimulationFromPDB path "path option"
  | SimulationFromRestart path int

text \<open>
  The attribute \<^verbatim>\<open>self.sim\<close>: \<^verbatim>\<open>None\<close> after \<^verbatim>\<open>__init__\<close>, an engine once one is
  cached, and absent after \<^verbatim>\<open>del self.sim\<close> (reading it then raises AttributeError).
\<close>

datatype sim_slot = Deleted | PyNone | Cached simulation

text \<open>
  The order in which engines are released (the last reference is dropped by
  \<^verbatim>\<open>del self.sim\<close>) and built (\<^verbatim>\<open>configure_simulation\<close> returns) is kept as a list of
  events beside the fields of the object, together with the disk and the two
  directories that the base class provides.
\<close>

datatype lifecycle_event = Released simulation | Built simulation

record app =
  config :: settings
  sim :: sim_slot
  pdb_file :: "path option"
  top_file :: "path option"
  workdir :: path
  persistent_dir :: path
  disk :: filesystem
  events :: "lifecycle_event list"

record md_simulation_output =
  contact_map_path :: path
  rmsd_path :: path

section \<open>Strings\<close>

definition digit_char :: "nat \<Rightarrow> char" where
  "digit_char d = ''0123456789'' ! (d mod 10)"

fun digits :: "nat \<Rightarrow> string" where
  "digits n = (if n < 10 then [digit_char n] else digits (n div 10) @ [digit_char (n mod 10)])"

declare digits.simps [simp del]

text \<open>Reading a string of decimal digits back as a number.\<close>

definition digit_value :: "char \<Rightarrow> nat" where
  "digit_value c = length (takeWhile (\<lambda>d. d \<noteq> c) ''0123456789'')"

definition decimal_value :: "string \<Rightarrow> nat" where
  "decimal_value cs = foldl (\<lambda>acc c. 10 * acc + digit_value c) 0 cs"

text \<open>\<^verbatim>\<open>str(i)\<close> for a Python int.\<close>

definition str_int :: "int \<Rightarrow> string" where
  "str_int i = (if i < 0 then CHR ''-'' # digits (nat (- i)) else digits (nat i))"

text \<open>\<^verbatim>\<open>f"{i:06}"\<close>: sign-aware zero padding to a minimum width of 6.\<close>

definition format_06 :: "int \<Rightarrow> string" where
  "format_06 i =
     (if i < 0
      then CHR ''-'' # replicate (5 - length (digits (nat (- i)))) CHR ''0'' @ digits (nat (- i))
      else replicate (6 - length (digits (nat i))) CHR ''0'' @ digits (nat i))"

definition ends_with :: "string \<Rightarrow> string \<Rightarrow> bool" where
  "ends_with s suf = (length suf \<le> length s \<and> drop (length s - length suf) s = suf)"

text \<open>
  \<^verbatim>\<open>list(d.glob("*" + suf))\<close>: the entries directly under \<open>d\<close> whose name ends with
  \<open>suf\<close>, in listing order.
\<close>

definition glob :: "filesystem \<Rightarrow> path \<Rightarrow> string \<Rightarrow> path list" where
  "glob fs d suf = filter (\<lambda>p. p \<noteq> [] \<and> path_parent p = d \<and> ends_with (last p) suf) (map fst fs)"

section \<open>configure_simulation\<close>

definition parse_pdb :: "filesystem \<Rightarrow> path \<Rightarrow> error + (atoms \<times> frame)" where
  "parse_pdb fs p =
     (case fs_read fs p of
        None \<Rightarrow> Inl (FileNotFoundError p)
      | Some (PDB a f) \<Rightarrow> Inr (a, f)
      | Some _ \<Rightarrow> Inl (ParseError p))"

definition parse_prmtop :: "filesystem \<Rightarrow> path \<Rightarrow> error + atoms" where
  "parse_prmtop fs p =
     (case fs_read fs p of
        None \<Rightarrow> Inl (FileNotFoundError p)
      | Some (Prmtop a) \<Rightarrow> Inr a
      | Some _ \<Rightarrow> Inl (ParseError p))"

definition new_simulation ::
  "atoms \<Rightarrow> system \<Rightarrow> integrator \<Rightarrow> platform \<Rightarrow> (string \<times> string) list \<Rightarrow> simulation" where
  "new_simulation topo sys integ plat props =
     \<lparr>topology = topo, system = sys, integrator = integ, platform = plat,
      platform_properties = props, context_positions = None, minimized = False,
      velocities = None, currentStep = 0, reporters = []\<rparr>"

definition configure_amber_implicit ::
  "filesystem \<Rightarrow> path \<Rightarrow> path option \<Rightarrow> real \<Rightarrow> real \<Rightarrow> real \<Rightarrow> platform \<Rightarrow>
   (string \<times> string) list \<Rightarrow> error + (simulation \<times> (atoms \<times> frame) option)" where
  "configure_amber_implicit fs pdb_path top_path dt temp fric plat props =
     (let integ = \<lparr>temperature = temp, friction = fric, timestep = dt,
                   constraint_tolerance = Some 0.00001\<rparr>
      in case top_path of
           Some t \<Rightarrow>
             (case parse_prmtop fs t of
                Inl e \<Rightarrow> Inl e
              | Inr a \<Rightarrow> Inr (new_simulation a AmberImplicitPrmtop integ plat props, None))
         | None \<Rightarrow>
             (case parse_pdb fs pdb_path of
                Inl e \<Rightarrow> Inl e
              | Inr (a, f) \<Rightarrow>
                  Inr (new_simulation a AmberImplicitForceField integ plat props, Some (a, f))))"

definition configure_amber_explicit ::
  "filesystem \<Rightarrow> path \<Rightarrow> real \<Rightarrow> real \<Rightarrow> real \<Rightarrow> platform \<Rightarrow>
   (string \<times> string) list \<Rightarrow> string \<Rightarrow> error + simulation" where
  "configure_amber_explicit fs top_path dt temp fric plat props explicit_barostat =
     (case parse_prmtop fs top_path of
        Inl e \<Rightarrow> Inl e
      | Inr a \<Rightarrow>
          (let integ = \<lparr>temperature = temp, friction = fric, timestep = dt,
                        constraint_tolerance = None\<rparr>
           in if explicit_barostat = ''MonteCarloBarostat''
              then Inr (new_simulation a (AmberExplicit MonteCarloBarostat) integ plat props)
              else if explicit_barostat = ''MonteCarloAnisotropicBarostat''
              then Inr (new_simulation a (AmberExplicit MonteCarloAnisotropicBarostat)
                          integ plat props)
              else Inl (ValueError ''Invalid explicit_barostat option'')))"

text \<open>The hardware probe at the head of \<^verbatim>\<open>configure_simulation\<close>.\<close>

definition select_platform ::
  "env \<Rightarrow> int \<Rightarrow> error + (platform \<times> (string \<times> string) list)" where
  "select_platform e gpu_index =
     (if CUDA \<in> set (available e)
      then Inr (CUDA, [(''DeviceIndex'', str_int gpu_index), (''CudaPrecision'', ''mixed'')])
      else if OpenCL \<in> set (available e)
      then Inr (OpenCL, [(''DeviceIndex'', str_int gpu_index)])
      else if CPU \<in> set (available e)
      then Inr (CPU, [])
      else Inl (OpenMMException ''There is no registered Platform called CPU''))"

definition set_positions_step ::
  "filesystem \<Rightarrow> path \<Rightarrow> bool \<Rightarrow> simulation \<times> (atoms \<times> frame) option \<Rightarrow> error + simulation" where
  "set_positions_step fs pdb_path set_positions sp =
     (case sp of (s, pdb) \<Rightarrow>
        if \<not> set_positions then Inr s
        else case (case pdb of None \<Rightarrow> parse_pdb fs pdb_path | Some af \<Rightarrow> Inr af) of
               Inl e \<Rightarrow> Inl e
             | Inr (a, f) \<Rightarrow>
                 if length (positions f) = length (topology s)
                 then Inr (s\<lparr>context_positions := Some (positions f)\<rparr>)
                 else Inl (OpenMMException ''wrong number of positions''))"

definition minimize_step :: "bool \<Rightarrow> simulation \<Rightarrow> error + simulation" where
  "minimize_step run_minimization s =
     (if \<not> run_minimization then Inr s
      else if context_positions s = None
      then Inl (OpenMMException ''Particle positions have not been set'')
      else Inr (s\<lparr>minimized := True\<rparr>))"

definition velocities_step :: "env \<Rightarrow> bool \<Rightarrow> real \<Rightarrow> simulation \<Rightarrow> simulation" where
  "velocities_step e set_velocities temp s =
     (if set_velocities then s\<lparr>velocities := Some (temp, seed e)\<rparr> else s)"

definition configure_simulation ::
  "env \<Rightarrow> filesystem \<Rightarrow> path \<Rightarrow> path option \<Rightarrow> string \<Rightarrow> int \<Rightarrow> real \<Rightarrow> real \<Rightarrow> real \<Rightarrow>
   string \<Rightarrow> bool \<Rightarrow> bool \<Rightarrow> bool \<Rightarrow> error + simulation" where
  "configure_simulation e fs pdb_path top_path solvent gpu_index dt temp fric
       explicit_barostat run_minimization set_positions set_velocities =
     (case select_platform e gpu_index of
        Inl err \<Rightarrow> Inl err
      | Inr (plat, props) \<Rightarrow>
          (case (if solvent = ''implicit''
                 then configure_amber_implicit fs pdb_path top_path dt temp fric plat props
                 else if solvent \<noteq> ''explicit'' then Inl AssertionError
                 else case top_path of
                        None \<Rightarrow> Inl AssertionError
                      | Some t \<Rightarrow>
                          (case configure_amber_explicit fs t dt temp fric plat props
                                  explicit_barostat of
                             Inl err \<Rightarrow> Inl err
                           | Inr s \<Rightarrow> Inr (s, None))) of
             Inl err \<Rightarrow> Inl err
           | Inr sp \<Rightarrow>
               (case set_positions_step fs pdb_path set_positions sp of
                  Inl err \<Rightarrow> Inl err
                | Inr s1 \<Rightarrow>
                    (case minimize_step run_minimization s1 of
                       Inl err \<Rightarrow> Inl err
                     | Inr s2 \<Rightarrow> Inr (velocities_step e set_velocities temp s2)))))"

section \<open>The lifecycle manager\<close>

text \<open>
  Modelled from the spec: \<^verbatim>\<open>copy_to_workdir\<close> is a method of the base class
  \<^verbatim>\<open>Application\<close> in \<^verbatim>\<open>deepdrivemd.utils\<close>, which is not part of \<^verbatim>\<open>app.py\<close>. The spec
  has it "copy supplied structure/topology into the managed working area": an absent
  path stays absent, a present one is copied under its own name into the working
  directory, and the path of the copy is returned. Copying a file that does not exist
  fails.
\<close>

definition copy_to_workdir :: "app \<Rightarrow> path option \<Rightarrow> (error \<times> app) + (app \<times> path option)" where
  "copy_to_workdir st p =
     (case p of
        None \<Rightarrow> Inr (st, None)
      | Some q \<Rightarrow>
          (case fs_read (disk st) q of
             None \<Rightarrow> Inl (FileNotFoundError q, st)
           | Some c \<Rightarrow>
               (let d = workdir st @ [path_name q]
                in Inr (st\<lparr>disk := fs_write (disk st) d c\<rparr>, Some d))))"

record universe =
  u_atoms :: atoms
  u_frames :: "frame list"
  u_ts :: nat

text \<open>
  \<^verbatim>\<open>MDAnalysis.Universe(pdb)\<close> and \<^verbatim>\<open>MDAnalysis.Universe(pdb, dcd)\<close>: the atoms of the
  structure file and the frames of the trajectory (of the structure file itself when
  there is no trajectory), positioned on the first frame. Every frame must have one
  position for each atom.
\<close>

definition load_universe :: "filesystem \<Rightarrow> path \<Rightarrow> path option \<Rightarrow> error + universe" where
  "load_universe fs pdb_path dcd_path =
     (case parse_pdb fs pdb_path of
        Inl e \<Rightarrow> Inl e
      | Inr (a, f) \<Rightarrow>
          (case (case dcd_path of
                   None \<Rightarrow> Inr [f]
                 | Some d \<Rightarrow>
                     (case fs_read fs d of
                        None \<Rightarrow> Inl (FileNotFoundError d)
                      | Some (DCD fr) \<Rightarrow> Inr fr
                      | Some _ \<Rightarrow> Inl (ParseError d))) of
             Inl e \<Rightarrow> Inl e
           | Inr fr \<Rightarrow>
               if fr = [] then Inl (ParseError (case dcd_path of None \<Rightarrow> pdb_path | Some d \<Rightarrow> d))
               else if \<exists>g \<in> set fr. length (positions g) \<noteq> length a
               then Inl (ValueError ''trajectory and topology differ in the number of atoms'')
               else Inr \<lparr>u_atoms = a, u_frames = fr, u_ts = 0\<rparr>))"

text \<open>\<^verbatim>\<open>mda_u.trajectory[frame]\<close>: Python indexing, negative indices count from the end.\<close>

definition seek_frame :: "universe \<Rightarrow> int \<Rightarrow> error + universe" where
  "seek_frame u k =
     (let n = int (length (u_frames u)); j = (if k < 0 then n + k else k)
      in if 0 \<le> j \<and> j < n then Inr (u\<lparr>u_ts := nat j\<rparr>) else Inl IndexError)"

definition write_pdb_frame :: "filesystem \<Rightarrow> path \<Rightarrow> path \<Rightarrow> int \<Rightarrow> path \<Rightarrow> error + filesystem" where
  "write_pdb_frame fs pdb_path dcd_path k output_pdb_file =
     (case load_universe fs pdb_path (Some dcd_path) of
        Inl e \<Rightarrow> Inl e
      | Inr u \<Rightarrow>
          (case seek_frame u k of
             Inl e \<Rightarrow> Inl e
           | Inr u' \<Rightarrow>
               Inr (fs_write fs output_pdb_file (PDB (u_atoms u') (u_frames u' ! u_ts u')))))"

text \<open>
  \<^verbatim>\<open>init_simulation\<close>: the cached engine, when there is one, is deleted first; then a
  new one is configured with \<^verbatim>\<open>gpu_index=0\<close> and the defaults of the remaining
  parameters, and stored.
\<close>

definition build_simulation :: "env \<Rightarrow> app \<Rightarrow> path \<Rightarrow> path option \<Rightarrow> error + simulation" where
  "build_simulation e st pdb_path top_path =
     configure_simulation e (disk st) pdb_path top_path (solvent_type (config st)) 0
       (dt_ps (config st)) (temperature_kelvin (config st))
       (heat_bath_friction_coef (config st)) ''MonteCarloBarostat'' True True True"

definition install_simulation :: "env \<Rightarrow> app \<Rightarrow> path \<Rightarrow> path option \<Rightarrow> (error \<times> app) + app" where
  "install_simulation e st pdb_path top_path =
     (case build_simulation e st pdb_path top_path of
        Inl err \<Rightarrow> Inl (err, st)
      | Inr s \<Rightarrow> Inr (st\<lparr>sim := Cached s, events := events st @ [Built s]\<rparr>))"

definition init_simulation :: "env \<Rightarrow> app \<Rightarrow> path \<Rightarrow> path option \<Rightarrow> (error \<times> app) + app" where
  "init_simulation e st pdb_path top_path =
     (case sim st of
        Deleted \<Rightarrow> Inl (AttributeError, st)
      | PyNone \<Rightarrow> install_simulation e st pdb_path top_path
      | Cached old \<Rightarrow>
          install_simulation e (st\<lparr>sim := Deleted, events := events st @ [Released old]\<rparr>)
            pdb_path top_path)"

definition init_continue_simulation :: "app \<Rightarrow> (error \<times> app) + app" where
  "init_continue_simulation st =
     (case sim st of
        Deleted \<Rightarrow> Inl (AttributeError, st)
      | PyNone \<Rightarrow>
          Inl (RuntimeError ''Tried to continue a simulation that doesn't exist.'', st)
      | Cached s \<Rightarrow>
          (case pdb_file st of
             None \<Rightarrow> Inl (AssertionError, st)
           | Some p \<Rightarrow>
               (case copy_to_workdir st (Some p) of
                  Inl x \<Rightarrow> Inl x
                | Inr (st1, p') \<Rightarrow>
                    (case copy_to_workdir (st1\<lparr>pdb_file := p'\<rparr>) (top_file st1) of
                       Inl x \<Rightarrow> Inl x
                     | Inr (st2, t') \<Rightarrow> Inr (st2\<lparr>top_file := t'\<rparr>)))))"

definition init_simulation_from_pdb ::
  "env \<Rightarrow> app \<Rightarrow> path \<Rightarrow> path option \<Rightarrow> (error \<times> app) + app" where
  "init_simulation_from_pdb e st start_pdb start_top =
     (case copy_to_workdir st (Some start_pdb) of
        Inl x \<Rightarrow> Inl x
      | Inr (st1, p') \<Rightarrow>
          (case copy_to_workdir (st1\<lparr>pdb_file := p'\<rparr>) start_top of
             Inl x \<Rightarrow> Inl x
           | Inr (st2, t') \<Rightarrow>
               (let st3 = st2\<lparr>top_file := t'\<rparr>
                in case pdb_file st3 of
                     None \<Rightarrow> Inl (AssertionError, st3)
                   | Some p \<Rightarrow> init_simulation e st3 p (top_file st3))))"

text \<open>\<^verbatim>\<open>next(it)\<close> and \<^verbatim>\<open>next(it, None)\<close> on the paths a glob yields.\<close>

definition next_raise :: "path list \<Rightarrow> error + path" where
  "next_raise ps = (case ps of [] \<Rightarrow> Inl StopIteration | p # _ \<Rightarrow> Inr p)"

definition next_default :: "path list \<Rightarrow> path option" where
  "next_default ps = (case ps of [] \<Rightarrow> None | p # _ \<Rightarrow> Some p)"

definition find_top_file :: "filesystem \<Rightarrow> path \<Rightarrow> path option" where
  "find_top_file fs sim_dir =
     (case next_default (glob fs sim_dir ''.top'') of
        None \<Rightarrow> next_default (glob fs sim_dir ''.prmtop'')
      | Some t \<Rightarrow> Some t)"

definition pdb_name :: "path \<Rightarrow> int \<Rightarrow> string" where
  "pdb_name old_pdb_file k =
     path_name (path_parent old_pdb_file) @ ''_frame'' @ format_06 k @ ''.pdb''"

definition init_simulation_from_restart ::
  "env \<Rightarrow> app \<Rightarrow> path \<Rightarrow> int \<Rightarrow> (error \<times> app) + app" where
  "init_simulation_from_restart e st sim_dir k =
     (case next_raise (glob (disk st) sim_dir ''.pdb'') of
        Inl err \<Rightarrow> Inl (err, st)
      | Inr old_pdb_file \<Rightarrow>
          (case next_raise (glob (disk st) sim_dir ''.dcd'') of
             Inl err \<Rightarrow> Inl (err, st)
           | Inr dcd_file \<Rightarrow>
               (case copy_to_workdir st (find_top_file (disk st) sim_dir) of
                  Inl x \<Rightarrow> Inl x
                | Inr (st1, t') \<Rightarrow>
                    (let st2 = st1\<lparr>top_file := t'\<rparr>;
                         new_pdb = workdir st2 @ [pdb_name old_pdb_file k];
                         st3 = st2\<lparr>pdb_file := Some new_pdb\<rparr>
                     in case write_pdb_frame (disk st3) old_pdb_file dcd_file k new_pdb of
                          Inl err \<Rightarrow> Inl (err, st3)
                        | Inr fs' \<Rightarrow>
                            init_simulation e (st3\<lparr>disk := fs'\<rparr>) new_pdb (top_file st3)))))"

fun initialize_run :: "env \<Rightarrow> app \<Rightarrow> simulation_start \<Rightarrow> (error \<times> app) + app" where
  "initialize_run e st ContinueSimulation = init_continue_simulation st"
| "initialize_run e st (SimulationFromPDB p t) = init_simulation_from_pdb e st p t"
| "initialize_run e st (SimulationFromRestart d k) = init_simulation_from_restart e st d k"

section \<open>Stepping the engine\<close>

text \<open>\<^verbatim>\<open>int(x)\<close> on a float: truncation towards zero.\<close>

definition py_int :: "real \<Rightarrow> int" where
  "py_int x = (if 0 \<le> x then \<lfloor>x\<rfloor> else \<lceil>x\<rceil>)"

text \<open>
  The two quotients of unit-carrying quantities in \<^verbatim>\<open>run\<close>, each truncated by
  \<^verbatim>\<open>int\<close>. The quotients themselves are floating-point results of \<^verbatim>\<open>openmm.unit\<close> and
  are taken from the environment: the report interval by the timestep, both in
  picoseconds, and the simulation length in nanoseconds by the timestep in picoseconds.
\<close>

definition run_report_steps :: "env \<Rightarrow> settings \<Rightarrow> int" where
  "run_report_steps e cfg = py_int (ps_per_ps e (report_interval_ps cfg) (dt_ps cfg))"

definition run_nsteps :: "env \<Rightarrow> settings \<Rightarrow> int" where
  "run_nsteps e cfg = py_int (ns_per_ps e (simulation_length_ns cfg) (dt_ps cfg))"

fun reporter_interval :: "reporter \<Rightarrow> int" where
  "reporter_interval (DCDReporter p r) = r"
| "reporter_interval (StateDataReporter p r) = r"

fun reporter_file :: "reporter \<Rightarrow> path" where
  "reporter_file (DCDReporter p r) = p"
| "reporter_file (StateDataReporter p r) = p"

text \<open>
  A reporter with a positive interval reports after every step whose number is a
  multiple of the interval; one with a negative interval never does.
\<close>

definition report_due :: "reporter \<Rightarrow> nat \<Rightarrow> bool" where
  "report_due r n = (0 < reporter_interval r \<and> int n mod reporter_interval r = 0)"

definition dcd_frames :: "filesystem \<Rightarrow> path \<Rightarrow> frame list" where
  "dcd_frames fs p = (case fs_read fs p of Some (DCD fr) \<Rightarrow> fr | _ \<Rightarrow> [])"

text \<open>
  A report that is due. The trajectory reporter appends the frame of the engine to its
  file; it cannot do so for an engine made from a topology file in implicit solvent,
  which carries the parsed topology file where a topology is expected (line 75, against
  line 120 in explicit solvent): the trajectory writer then fails on a missing
  attribute. The log reporter of \<^verbatim>\<open>run\<close> was given a path object (line 336); it opens
  only a string and takes anything else for an open file, so its first report fails on
  a missing attribute too.
\<close>

fun write_report :: "env \<Rightarrow> simulation \<Rightarrow> filesystem \<Rightarrow> reporter \<Rightarrow> error + filesystem" where
  "write_report e s fs (DCDReporter p r) =
     (if report_due (DCDReporter p r) (currentStep s)
      then (if system s = AmberImplicitPrmtop then Inl AttributeError
            else Inr (fs_write fs p (DCD (dcd_frames fs p @ [engine_frame e s]))))
      else Inr fs)"
| "write_report e s fs (StateDataReporter p r) =
     (if report_due (StateDataReporter p r) (currentStep s) then Inl AttributeError else Inr fs)"

text \<open>The reports of one step, in the order of the reporter list, up to the first failure.\<close>

fun write_reports ::
  "env \<Rightarrow> simulation \<Rightarrow> filesystem \<Rightarrow> reporter list \<Rightarrow> (error \<times> filesystem) + filesystem" where
  "write_reports e s fs [] = Inr fs"
| "write_reports e s fs (r # rs) =
     (case write_report e s fs r of
        Inl err \<Rightarrow> Inl (err, fs)
      | Inr fs' \<Rightarrow> write_reports e s fs' rs)"

fun step_loop ::
  "env \<Rightarrow> nat \<Rightarrow> simulation \<Rightarrow> filesystem \<Rightarrow>
   (error \<times> simulation \<times> filesystem) + (simulation \<times> filesystem)" where
  "step_loop e 0 s fs = Inr (s, fs)"
| "step_loop e (Suc n) s fs =
     (let s' = s\<lparr>currentStep := Suc (currentStep s)\<rparr>
      in case write_reports e s' fs (reporters s') of
           Inl (err, fs') \<Rightarrow> Inl (err, s', fs')
         | Inr fs' \<Rightarrow> step_loop e n s' fs')"

text \<open>
  \<^verbatim>\<open>sim.step(nsteps)\<close>: nothing happens for a count that is not positive; a reporter
  with interval 0 makes the first look at the reporters divide by zero. A failure
  leaves the engine and the disk as they are when it is raised.
\<close>

definition sim_step ::
  "env \<Rightarrow> int \<Rightarrow> simulation \<Rightarrow> filesystem \<Rightarrow>
   (error \<times> simulation \<times> filesystem) + (simulation \<times> filesystem)" where
  "sim_step e nsteps s fs =
     (if 0 < nsteps \<and> (\<exists>r \<in> set (reporters s). reporter_interval r = 0)
      then Inl (ZeroDivisionError, s, fs)
      else step_loop e (nat nsteps) s fs)"

section \<open>Trajectory analysis\<close>

definition select_atoms :: "env \<Rightarrow> string \<Rightarrow> atoms \<Rightarrow> nat list" where
  "select_atoms e sel a = filter (\<lambda>i. matches e sel i (a ! i)) [0..<length a]"

text \<open>\<^verbatim>\<open>AtomGroup.positions\<close> on a frame.\<close>

definition atom_positions :: "nat list \<Rightarrow> frame \<Rightarrow> coord list" where
  "atom_positions idx f = map (\<lambda>i. positions f ! i) idx"

text \<open>
  \<^verbatim>\<open>align.AlignTraj(mda_u, ref_u, select=..., in_memory=True).run()\<close>: every frame is
  moved by the rigid transformation that fits its selected atoms onto the selected
  atoms of the reference; the selections must have the same size; the box of a frame
  is left alone and the trajectory is back on its first frame afterwards.
\<close>

definition align_frame :: "env \<Rightarrow> nat list \<Rightarrow> coord list \<Rightarrow> frame \<Rightarrow> frame" where
  "align_frame e mi ref_pos f =
     f\<lparr>positions := map (fit e (atom_positions mi f) ref_pos) (positions f)\<rparr>"

definition align_traj :: "env \<Rightarrow> universe \<Rightarrow> universe \<Rightarrow> string \<Rightarrow> error + universe" where
  "align_traj e mob ref sel =
     (let mi = select_atoms e sel (u_atoms mob);
          ri = select_atoms e sel (u_atoms ref);
          ref_pos = atom_positions ri (u_frames ref ! u_ts ref)
      in if length mi \<noteq> length ri then Inl SelectionError
         else Inr (mob\<lparr>u_frames := map (align_frame e mi ref_pos) (u_frames mob), u_ts := 0\<rparr>))"

text \<open>
  \<^verbatim>\<open>distances.contact_matrix(positions, cutoff, box=box, returntype="sparse")\<close>: the
  square boolean matrix over the given positions, written densely.
\<close>

definition contact_matrix ::
  "env \<Rightarrow> coord list \<Rightarrow> real \<Rightarrow> real list option \<Rightarrow> bool list list" where
  "contact_matrix e pos cutoff box = map (\<lambda>p. map (\<lambda>q. in_contact e box cutoff p q) pos) pos"

text \<open>\<^verbatim>\<open>cm.tocoo()\<close>: the coordinates of the entries that are set, row by row.\<close>

definition coo_entries :: "bool list list \<Rightarrow> (int \<times> int) list" where
  "coo_entries m =
     concat (map (\<lambda>i. map (\<lambda>j. (int i, int j)) (filter (\<lambda>j. m ! i ! j) [0..<length (m ! i)]))
               [0..<length m])"

definition coo_row :: "bool list list \<Rightarrow> int list" where
  "coo_row m = map fst (coo_entries m)"

definition coo_col :: "bool list list \<Rightarrow> int list" where
  "coo_col m = map snd (coo_entries m)"

text \<open>\<^verbatim>\<open>.astype("int16")\<close>: the low 16 bits, read back as a signed number by \<open>sint\<close>.\<close>

definition astype_int16 :: "int list \<Rightarrow> 16 word list" where
  "astype_int16 xs = map word_of_int xs"

text \<open>The two index arrays the loop body stores for a frame (lines 385 to 390).\<close>

definition frame_rows :: "env \<Rightarrow> real \<Rightarrow> real list option \<Rightarrow> coord list \<Rightarrow> 16 word list" where
  "frame_rows e cutoff box pos = astype_int16 (coo_row (contact_matrix e pos cutoff box))"

definition frame_cols :: "env \<Rightarrow> real \<Rightarrow> real list option \<Rightarrow> coord list \<Rightarrow> 16 word list" where
  "frame_cols e cutoff box pos = astype_int16 (coo_col (contact_matrix e pos cutoff box))"

fun analyze_frames ::
  "env \<Rightarrow> real \<Rightarrow> nat list \<Rightarrow> coord list \<Rightarrow> real list option \<Rightarrow> frame list \<Rightarrow>
   16 word list list \<times> 16 word list list \<times> real list \<Rightarrow>
   16 word list list \<times> 16 word list list \<times> real list" where
  "analyze_frames e cutoff idx ref_positions box [] acc = acc"
| "analyze_frames e cutoff idx ref_positions box (f # rest) (rows, cols, rmsds) =
     (let pos = atom_positions idx f
      in analyze_frames e cutoff idx ref_positions box rest
           (rows @ [frame_rows e cutoff box pos],
            cols @ [frame_cols e cutoff box pos],
            rmsds @ [rmsd e pos ref_positions]))"

definition analyze_universe ::
  "env \<Rightarrow> settings \<Rightarrow> universe \<Rightarrow> universe \<Rightarrow> 16 word list list \<times> real list" where
  "analyze_universe e cfg mda_u ref_u =
     (let ref_positions = atom_positions (select_atoms e (mda_selection cfg) (u_atoms ref_u))
                            (u_frames ref_u ! u_ts ref_u);
          idx = select_atoms e (mda_selection cfg) (u_atoms mda_u);
          box = dimensions (u_frames mda_u ! u_ts mda_u)
      in case analyze_frames e (cutoff_angstrom cfg) idx ref_positions box (u_frames mda_u)
                ([], [], []) of
           (rows, cols, rmsds) \<Rightarrow> (map (\<lambda>(r, c). r @ c) (zip rows cols), rmsds))"

definition analyze_simulation ::
  "env \<Rightarrow> settings \<Rightarrow> filesystem \<Rightarrow> path \<Rightarrow> path \<Rightarrow> error + (16 word list list \<times> real list)" where
  "analyze_simulation e cfg fs pdb_path traj_file =
     (case load_universe fs pdb_path (Some traj_file) of
        Inl err \<Rightarrow> Inl err
      | Inr mda_u \<Rightarrow>
          (case load_universe fs (rmsd_reference_pdb cfg) None of
             Inl err \<Rightarrow> Inl err
           | Inr ref_u \<Rightarrow>
               (case align_traj e mda_u ref_u (mda_selection cfg) of
                  Inl err \<Rightarrow> Inl err
                | Inr aligned \<Rightarrow> Inr (analyze_universe e cfg aligned ref_u))))"

section \<open>run\<close>

text \<open>
  Lines 330 to 345 of \<^verbatim>\<open>run\<close>: the reporter list of the cached engine is emptied, then
  the trajectory reporter and the log reporter are appended. The trajectory reporter
  opens its file for writing when it is made; the log reporter, given a path object,
  opens nothing.
\<close>

definition attach_reporters :: "app \<Rightarrow> int \<Rightarrow> (error \<times> app) + app" where
  "attach_reporters st report_steps =
     (case sim st of
        Deleted \<Rightarrow> Inl (AttributeError, st)
      | PyNone \<Rightarrow> Inl (AttributeError, st)
      | Cached s \<Rightarrow>
          (let traj_file = workdir st @ [''sim.dcd''];
               s1 = s\<lparr>reporters := []\<rparr>;
               fs1 = fs_write (disk st) traj_file (DCD []);
               s2 = s1\<lparr>reporters := reporters s1 @ [DCDReporter traj_file report_steps]\<rparr>;
               s3 = s2\<lparr>reporters := reporters s2 @
                      [StateDataReporter (workdir st @ [''sim.log'']) report_steps]\<rparr>
           in Inr (st\<lparr>sim := Cached s3, disk := fs1\<rparr>)))"

definition step_cached :: "env \<Rightarrow> app \<Rightarrow> int \<Rightarrow> (error \<times> app) + app" where
  "step_cached e st nsteps =
     (case sim st of
        Deleted \<Rightarrow> Inl (AttributeError, st)
      | PyNone \<Rightarrow> Inl (AttributeError, st)
      | Cached s \<Rightarrow>
          (case sim_step e nsteps s (disk st) of
             Inl (err, s', fs') \<Rightarrow> Inl (err, st\<lparr>sim := Cached s', disk := fs'\<rparr>)
           | Inr (s', fs') \<Rightarrow> Inr (st\<lparr>sim := Cached s', disk := fs'\<rparr>)))"

definition analyze_and_save :: "env \<Rightarrow> app \<Rightarrow> (error \<times> app) + (app \<times> md_simulation_output)" where
  "analyze_and_save e st =
     (case pdb_file st of
        None \<Rightarrow> Inl (AssertionError, st)
      | Some p \<Rightarrow>
          (case analyze_simulation e (config st) (disk st) p (workdir st @ [''sim.dcd'']) of
             Inl err \<Rightarrow> Inl (err, st)
           | Inr (contact_maps, rmsds) \<Rightarrow>
               (let fs1 = fs_write (disk st) (workdir st @ [''contact_map.npy''])
                            (NpyContactMaps contact_maps);
                    fs2 = fs_write fs1 (workdir st @ [''rmsd.npy'']) (NpyRmsds rmsds)
                in Inr (st\<lparr>disk := fs2\<rparr>,
                        \<lparr>contact_map_path = persistent_dir st @ [''contact_map.npy''],
                         rmsd_path = persistent_dir st @ [''rmsd.npy'']\<rparr>))))"

text \<open>
  The stages of \<^verbatim>\<open>run\<close> after the initialisation, for a report interval and a step
  count that have been computed.
\<close>

definition run_stages ::
  "env \<Rightarrow> app \<Rightarrow> int \<Rightarrow> int \<Rightarrow> (error \<times> app) + (app \<times> md_simulation_output)" where
  "run_stages e st1 report_steps nsteps =
     (case attach_reporters st1 report_steps of
        Inl x \<Rightarrow> Inl x
      | Inr st2 \<Rightarrow>
          (case step_cached e st2 nsteps of
             Inl x \<Rightarrow> Inl x
           | Inr st3 \<Rightarrow> analyze_and_save e st3))"

definition run :: "env \<Rightarrow> app \<Rightarrow> simulation_start \<Rightarrow> (error \<times> app) + (app \<times> md_simulation_output)" where
  "run e st input_start =
     (case initialize_run e st input_start of
        Inl x \<Rightarrow> Inl x
      | Inr st1 \<Rightarrow>
          if dt_ps (config st1) = 0 then Inl (ZeroDivisionError, st1)
          else run_stages e st1 (run_report_steps e (config st1)) (run_nsteps e (config st1)))"

section \<open>Names used in the statements\<close>

text \<open>The event that \<^verbatim>\<open>del self.sim\<close> adds for a given content of the attribute.\<close>

definition release_events :: "sim_slot \<Rightarrow> lifecycle_event list" where
  "release_events sl = (case sl of Cached old \<Rightarrow> [Released old] | _ \<Rightarrow> [])"

text \<open>The reference positions (line 378) and the positions of a frame in the loop (line 383).\<close>

definition ref_positions_of :: "env \<Rightarrow> settings \<Rightarrow> atoms \<Rightarrow> frame \<Rightarrow> coord list" where
  "ref_positions_of e cfg ra rf = atom_positions (select_atoms e (mda_selection cfg) ra) rf"

definition aligned_positions :: "env \<Rightarrow> settings \<Rightarrow> atoms \<Rightarrow> coord list \<Rightarrow> frame \<Rightarrow> coord list" where
  "aligned_positions e cfg a ref_pos f =
     atom_positions (select_atoms e (mda_selection cfg) a)
       (align_frame e (select_atoms e (mda_selection cfg) a) ref_pos f)"

text \<open>The application as a call of \<^verbatim>\<open>run\<close> leaves it, whether it returns or raises.\<close>

definition state_after :: "(error \<times> app) + (app \<times> md_simulation_output) \<Rightarrow> app" where
  "state_after r = (case r of Inl (err, st) \<Rightarrow> st | Inr (st, out) \<Rightarrow> st)"

section \<open>A concrete installation\<close>

text \<open>
  An environment and a disk on which the model can be evaluated: two atoms on the x
  axis in a cubic box, a distance test with the minimum-image convention for a
  rectangular box, a selection that takes every atom, a fit that moves nothing, an
  engine that always reports the same frame, and quotients of quantities that are
  exact.
\<close>

definition min_image :: "real \<Rightarrow> real \<Rightarrow> real" where
  "min_image l d = \<bar>d\<bar> - l * of_int \<lfloor>\<bar>d\<bar> / l + 1 / 2\<rfloor>"

fun pbc_in_contact :: "real list option \<Rightarrow> real \<Rightarrow> coord \<Rightarrow> coord \<Rightarrow> bool" where
  "pbc_in_contact (Some [a, b, c, al, be, ga]) cutoff (x, y, z) (x', y', z') =
     ((min_image a (x - x'))\<^sup>2 + (min_image b (y - y'))\<^sup>2 + (min_image c (z - z'))\<^sup>2
        < cutoff\<^sup>2)"
| "pbc_in_contact box cutoff (x, y, z) (x', y', z') =
     ((x - x')\<^sup>2 + (y - y')\<^sup>2 + (z - z')\<^sup>2 < cutoff\<^sup>2)"

definition demo_frame :: "real \<Rightarrow> frame" where
  "demo_frame l =
     \<lparr>positions = [(1, 0, 0), (9, 0, 0)], dimensions = Some [l, l, l, 90, 90, 90]\<rparr>"

definition demo_env :: env where
  "demo_env =
     \<lparr>available = [CUDA, CPU], seed = 7, engine_frame = (\<lambda>s. demo_frame 10),
      matches = (\<lambda>sel i a. True), fit = (\<lambda>mob ref c. c), in_contact = pbc_in_contact,
      rmsd = (\<lambda>a b. 0), ps_per_ps = (\<lambda>a b. a / b), ns_per_ps = (\<lambda>a b. a * 1000 / b)\<rparr>"

definition demo_settings :: settings where
  "demo_settings =
     \<lparr>solvent_type = ''implicit'', dt_ps = 0.002, temperature_kelvin = 300,
      heat_bath_friction_coef = 1, report_interval_ps = 0.002, simulation_length_ns = 0.01,
      rmsd_reference_pdb = [''data'', ''ref.pdb''], mda_selection = ''all'',
      cutoff_angstrom = 3, device_index = 1\<rparr>"

definition demo_disk :: filesystem where
  "demo_disk =
     [([''data'', ''sys.pdb''], PDB [''CA'', ''CA''] (demo_frame 10)),
      ([''data'', ''ref.pdb''], PDB [''CA'', ''CA''] (demo_frame 10)),
      ([''out'', ''run-a'', ''sys.pdb''], PDB [''CA'', ''CA''] (demo_frame 10)),
      ([''out'', ''run-a'', ''sim.dcd''],
         DCD [demo_frame 10, demo_frame 20, demo_frame 30, demo_frame 40]),
      ([''out'', ''run-a'', ''sys.prmtop''], Prmtop [''CA'', ''CA''])]"

definition demo_app :: app where
  "demo_app =
     \<lparr>config = demo_settings, sim = PyNone, pdb_file = None, top_file = None,
      workdir = [''out'', ''run-b''], persistent_dir = [''store'', ''run-b''],
      disk = demo_disk, events = []\<rparr>"

text \<open>
  The application after a first run has been initialised from the structure file
  and the base class has moved it on to the working directory of the next run.
\<close>

definition demo_cached :: app where
  "demo_cached =
     (case initialize_run demo_env demo_app (SimulationFromPDB [''data'', ''sys.pdb''] None) of
        Inr st \<Rightarrow> st\<lparr>workdir := [''out'', ''run-c''], persistent_dir := [''store'', ''run-c'']\<rparr>
      | Inl (err, st) \<Rightarrow> st)"

text \<open>The states that the three start conditions lead to on this installation.\<close>

definition demo_initialized :: app where
  "demo_initialized =
     (case initialize_run demo_env demo_app (SimulationFromPDB [''data'', ''sys.pdb''] None) of
        Inr st \<Rightarrow> st | Inl (err, st) \<Rightarrow> st)"

definition demo_continued :: app where
  "demo_continued =
     (case initialize_run demo_env demo_cached ContinueSimulation of
        Inr st \<Rightarrow> st | Inl (err, st) \<Rightarrow> st)"

definition demo_rebuilt :: app where
  "demo_rebuilt =
     (case initialize_run demo_env demo_cached (SimulationFromPDB [''data'', ''sys.pdb''] None) of
        Inr st \<Rightarrow> st | Inl (err, st) \<Rightarrow> st)"

definition demo_restarted :: app where
  "demo_restarted =
     (case initialize_run demo_env demo_cached (SimulationFromRestart [''out'', ''run-a''] 3) of
        Inr st \<Rightarrow> st | Inl (err, st) \<Rightarrow> st)"

text \<open>
  The same with a topology file: the application after a first run has been
  initialised from the structure file and the topology file of \<^verbatim>\<open>out/run-a\<close>, moved on
  to the next working directory, and the state a Continue start leads to from there.
\<close>

definition demo_cached_top :: app where
  "demo_cached_top =
     (case initialize_run demo_env demo_app
             (SimulationFromPDB [''data'', ''sys.pdb''] (Some [''out'', ''run-a'', ''sys.prmtop''])) of
        Inr st \<Rightarrow> st\<lparr>workdir := [''out'', ''run-c''], persistent_dir := [''store'', ''run-c'']\<rparr>
      | Inl (err, st) \<Rightarrow> st)"

definition demo_continued_top :: app where
  "demo_continued_top =
     (case initialize_run demo_env demo_cached_top ContinueSimulation of
        Inr st \<Rightarrow> st | Inl (err, st) \<Rightarrow> st)"

text \<open>
  The application as a first run from the structure file leaves it, moved on to the
  next working directory, and the state in which a Continue start then hands it to the
  stages of the second run.
\<close>

definition demo_first_run :: app where
  "demo_first_run =
     (state_after (run demo_env demo_app (SimulationFromPDB [''data'', ''sys.pdb''] None)))
       \<lparr>workdir := [''out'', ''run-c''], persistent_dir := [''store'', ''run-c'']\<rparr>"

definition demo_second_start :: app where
  "demo_second_start =
     (case initialize_run demo_env demo_first_run ContinueSimulation of
        Inr st \<Rightarrow> st | Inl (err, st) \<Rightarrow> st)"

section \<open>Properties\<close>

lemmas path_defs = path_name_def path_parent_def

lemmas configure_defs =
  configure_simulation_def select_platform_def configure_amber_implicit_def
  configure_amber_explicit_def set_positions_step_def minimize_step_def velocities_step_def
  new_simulation_def parse_pdb_def parse_prmtop_def build_simulation_def

lemmas lifecycle_defs =
  init_simulation_def install_simulation_def init_continue_simulation_def
  init_simulation_from_pdb_def init_simulation_from_restart_def copy_to_workdir_def
  write_pdb_frame_def load_universe_def seek_frame_def next_raise_def next_default_def
  find_top_file_def pdb_name_def glob_def ends_with_def

lemmas demo_defs =
  demo_env_def demo_settings_def demo_disk_def demo_app_def demo_frame_def

lemmas demo_eval =
  demo_defs lifecycle_defs configure_defs path_defs fs_read_def fs_write_def str_int_def
  digits.simps digit_char_def Let_def

subsection \<open>Files\<close>

lemma fs_read_write:
  "fs_read (fs_write fs p c) q = (if q = p then Some c else fs_read fs q)"
  by (simp add: fs_read_def fs_write_def update_conv')

lemma path_parent_snoc [simp]: "path_parent (d @ [n]) = d"
  by (simp add: path_parent_def)

lemma copy_to_workdir_None [simp]: "copy_to_workdir st None = Inr (st, None)"
  by (simp add: copy_to_workdir_def)

lemma copy_to_workdir_Inr:
  assumes "copy_to_workdir st p = Inr (st1, p')"
  shows "p' = map_option (\<lambda>q. workdir st @ [path_name q]) p"
    and "\<exists>fs1. st1 = st\<lparr>disk := fs1\<rparr> \<and>
           (\<forall>r. path_parent r \<noteq> workdir st \<longrightarrow> fs_read fs1 r = fs_read (disk st) r) \<and>
           (\<forall>q. p = Some q \<longrightarrow>
                fs_read (disk st) q \<noteq> None \<and>
                fs1 = fs_write (disk st) (workdir st @ [path_name q]) (the (fs_read (disk st) q)))
           \<and> (p = None \<longrightarrow> fs1 = disk st)"
  using assms
  by (auto simp: copy_to_workdir_def Let_def fs_read_write split: option.splits)

subsection \<open>Building an engine\<close>

lemma build_simulation_frame [simp]:
  "build_simulation e (st\<lparr>sim := x, events := y\<rparr>) p t = build_simulation e st p t"
  by (simp add: build_simulation_def)

lemma configure_simulation_platform:
  "configure_simulation e fs p t solvent gpu dt temp fric baro rm sp sv = Inr s \<Longrightarrow>
     select_platform e gpu = Inr (platform s, platform_properties s)"
  by (auto simp: configure_simulation_def configure_amber_implicit_def configure_amber_explicit_def
        set_positions_step_def minimize_step_def velocities_step_def new_simulation_def Let_def
      split: sum.splits if_splits option.splits prod.splits)

lemma configure_simulation_fresh:
  "configure_simulation e fs p t solvent gpu dt temp fric baro True True True = Inr s \<Longrightarrow>
     currentStep s = 0 \<and> reporters s = [] \<and> minimized s \<and> velocities s = Some (temp, seed e) \<and>
     (\<exists>a f. parse_pdb fs p = Inr (a, f) \<and> context_positions s = Some (positions f))"
  by (auto simp: configure_simulation_def configure_amber_implicit_def configure_amber_explicit_def
        set_positions_step_def minimize_step_def velocities_step_def new_simulation_def Let_def
      split: sum.splits if_splits option.splits prod.splits)

lemma build_simulation_Inr:
  assumes "build_simulation e st p t = Inr s"
  shows "select_platform e 0 = Inr (platform s, platform_properties s)"
    and "currentStep s = 0" and "reporters s = []" and "minimized s"
    and "velocities s = Some (temperature_kelvin (config st), seed e)"
    and "\<exists>a f. parse_pdb (disk st) p = Inr (a, f) \<and> context_positions s = Some (positions f)"
  using configure_simulation_platform[OF assms[unfolded build_simulation_def]]
    configure_simulation_fresh[OF assms[unfolded build_simulation_def]]
  by auto

lemma install_simulation_Inr:
  "install_simulation e st p t = Inr st' \<Longrightarrow>
     \<exists>s. build_simulation e st p t = Inr s \<and>
         st' = st\<lparr>sim := Cached s, events := events st @ [Built s]\<rparr>"
  by (auto simp: install_simulation_def split: sum.splits)

lemma init_simulation_Inr:
  "init_simulation e st p t = Inr st' \<Longrightarrow>
     sim st \<noteq> Deleted \<and>
     (\<exists>s. build_simulation e st p t = Inr s \<and>
          st' = st\<lparr>sim := Cached s, events := events st @ release_events (sim st) @ [Built s]\<rparr>)"
  by (auto simp: init_simulation_def release_events_def split: sim_slot.splits
      dest!: install_simulation_Inr)

lemma init_continue_simulation_Inr:
  assumes "init_continue_simulation st = Inr st'"
  shows "\<exists>s p fs'. sim st = Cached s \<and> pdb_file st = Some p \<and>
           st' = st\<lparr>pdb_file := Some (workdir st @ [path_name p]),
                     top_file := map_option (\<lambda>t. workdir st @ [path_name t]) (top_file st),
                     disk := fs'\<rparr> \<and>
           fs_read fs' (workdir st @ [path_name p]) \<noteq> None \<and>
           (\<forall>r. path_parent r \<noteq> workdir st \<longrightarrow> fs_read fs' r = fs_read (disk st) r)"
proof -
  from assms obtain s where s: "sim st = Cached s"
    by (auto simp: init_continue_simulation_def split: sim_slot.splits)
  from assms s obtain p where p: "pdb_file st = Some p"
    by (auto simp: init_continue_simulation_def split: option.splits)
  from assms s p obtain st1 p' where c1: "copy_to_workdir st (Some p) = Inr (st1, p')"
    by (auto simp: init_continue_simulation_def split: sum.splits)
  from assms s p c1 obtain st2 t' where
    c2: "copy_to_workdir (st1\<lparr>pdb_file := p'\<rparr>) (top_file st1) = Inr (st2, t')"
    and st': "st' = st2\<lparr>top_file := t'\<rparr>"
    by (auto simp: init_continue_simulation_def split: sum.splits)
  from copy_to_workdir_Inr[OF c1] obtain fs1 where
    p': "p' = Some (workdir st @ [path_name p])" and st1: "st1 = st\<lparr>disk := fs1\<rparr>"
    and fs1: "\<forall>r. path_parent r \<noteq> workdir st \<longrightarrow> fs_read fs1 r = fs_read (disk st) r"
    and w1: "fs_read (disk st) p \<noteq> None"
        "fs1 = fs_write (disk st) (workdir st @ [path_name p]) (the (fs_read (disk st) p))"
    by auto
  from copy_to_workdir_Inr[OF c2] obtain fs2 where
    t': "t' = map_option (\<lambda>q. workdir st @ [path_name q]) (top_file st)"
    and st2: "st2 = st1\<lparr>pdb_file := p', disk := fs2\<rparr>"
    and fs2: "\<forall>r. path_parent r \<noteq> workdir st \<longrightarrow> fs_read fs2 r = fs_read fs1 r"
    and w2: "\<forall>q. top_file st = Some q \<longrightarrow>
               fs2 = fs_write fs1 (workdir st @ [path_name q]) (the (fs_read fs1 q))"
        "top_file st = None \<longrightarrow> fs2 = fs1"
    by (auto simp: st1)
  have "fs_read fs2 (workdir st @ [path_name p]) \<noteq> None"
    using w1 w2 by (cases "top_file st") (auto simp: fs_read_write)
  moreover have "\<forall>r. path_parent r \<noteq> workdir st \<longrightarrow> fs_read fs2 r = fs_read (disk st) r"
    using fs1 fs2 by simp
  moreover have "st' = st\<lparr>pdb_file := Some (workdir st @ [path_name p]),
                     top_file := map_option (\<lambda>t. workdir st @ [path_name t]) (top_file st),
                     disk := fs2\<rparr>"
    by (simp add: st' st2 st1 p' t')
  ultimately show ?thesis using s p by blast
qed

lemma init_simulation_from_pdb_Inr:
  assumes "init_simulation_from_pdb e st p t = Inr st'"
  shows "\<exists>fs1 s. (\<forall>r. path_parent r \<noteq> workdir st \<longrightarrow> fs_read fs1 r = fs_read (disk st) r) \<and>
           sim st \<noteq> Deleted \<and>
           build_simulation e (st\<lparr>disk := fs1\<rparr>) (workdir st @ [path_name p])
             (map_option (\<lambda>q. workdir st @ [path_name q]) t) = Inr s \<and>
           st' = st\<lparr>pdb_file := Some (workdir st @ [path_name p]),
                     top_file := map_option (\<lambda>q. workdir st @ [path_name q]) t,
                     disk := fs1, sim := Cached s,
                     events := events st @ release_events (sim st) @ [Built s]\<rparr>"
proof -
  from assms obtain st1 p' where c1: "copy_to_workdir st (Some p) = Inr (st1, p')"
    by (auto simp: init_simulation_from_pdb_def split: sum.splits)
  from assms c1 obtain st2 t' where
    c2: "copy_to_workdir (st1\<lparr>pdb_file := p'\<rparr>) t = Inr (st2, t')"
    by (auto simp: init_simulation_from_pdb_def split: sum.splits)
  from copy_to_workdir_Inr[OF c1] obtain fs1 where
    p': "p' = Some (workdir st @ [path_name p])" and st1: "st1 = st\<lparr>disk := fs1\<rparr>"
    and fs1: "\<forall>r. path_parent r \<noteq> workdir st \<longrightarrow> fs_read fs1 r = fs_read (disk st) r"
    by auto
  from copy_to_workdir_Inr[OF c2] obtain fs2 where
    t': "t' = map_option (\<lambda>q. workdir st @ [path_name q]) t"
    and st2: "st2 = st1\<lparr>pdb_file := p', disk := fs2\<rparr>"
    and fs2: "\<forall>r. path_parent r \<noteq> workdir st \<longrightarrow> fs_read fs2 r = fs_read fs1 r"
    by (auto simp: st1)
  let ?st3 = "st2\<lparr>top_file := t'\<rparr>"
  have st3: "?st3 = st\<lparr>pdb_file := Some (workdir st @ [path_name p]), top_file := t', disk := fs2\<rparr>"
    by (simp add: st2 st1 p')
  from assms c1 c2 have "init_simulation e ?st3 (workdir st @ [path_name p]) t' = Inr st'"
    by (simp add: init_simulation_from_pdb_def Let_def st2 st1 p')
  from init_simulation_Inr[OF this] obtain s where
    "sim ?st3 \<noteq> Deleted" and b: "build_simulation e ?st3 (workdir st @ [path_name p]) t' = Inr s"
    and e: "st' = ?st3\<lparr>sim := Cached s, events := events ?st3 @ release_events (sim ?st3) @ [Built s]\<rparr>"
    by blast
  have b': "build_simulation e (st\<lparr>disk := fs2\<rparr>) (workdir st @ [path_name p]) t' = Inr s"
    using b by (simp add: st3 build_simulation_def)
  show ?thesis
    apply (rule exI[of _ fs2], rule exI[of _ s])
    using fs1 fs2 b' e \<open>sim ?st3 \<noteq> Deleted\<close> by (simp add: st2 st1 p' t')
qed

lemma initialize_run_continue_Inr:
  assumes "initialize_run e st ContinueSimulation = Inr st'"
  shows "\<exists>s p fs'. sim st = Cached s \<and> pdb_file st = Some p \<and>
           st' = st\<lparr>pdb_file := Some (workdir st @ [path_name p]),
                     top_file := map_option (\<lambda>t. workdir st @ [path_name t]) (top_file st),
                     disk := fs'\<rparr> \<and>
           fs_read fs' (workdir st @ [path_name p]) \<noteq> None \<and>
           (\<forall>r. path_parent r \<noteq> workdir st \<longrightarrow> fs_read fs' r = fs_read (disk st) r)"
  using assms init_continue_simulation_Inr by simp

lemma demo_initialized_run:
  "initialize_run demo_env demo_app (SimulationFromPDB [''data'', ''sys.pdb''] None) =
     Inr demo_initialized"
  by (simp add: demo_initialized_def demo_eval)

lemma demo_continued_run:
  "initialize_run demo_env demo_cached ContinueSimulation = Inr demo_continued"
  by (simp add: demo_continued_def demo_cached_def demo_eval)

subsection \<open>Continuing without an engine\<close>

text \<open>
  The attribute is deleted only when it holds an engine: a call that fails on an
  application that has never cached one leaves the attribute at \<^verbatim>\<open>None\<close>.
\<close>

lemma copy_to_workdir_sim:
  "copy_to_workdir st p = Inr (st1, p') \<Longrightarrow> sim st1 = sim st"
  "copy_to_workdir st p = Inl (err, st1) \<Longrightarrow> sim st1 = sim st"
  by (auto simp: copy_to_workdir_def Let_def split: option.splits)

lemma init_simulation_failure_keeps_none:
  "sim st = PyNone \<Longrightarrow> init_simulation e st p t = Inl (err, st') \<Longrightarrow> sim st' = PyNone"
  by (auto simp: init_simulation_def install_simulation_def split: sum.splits)

lemma initialize_run_failure_keeps_none:
  assumes "sim st = PyNone" and "initialize_run e st start = Inl (err, st')"
  shows "sim st' = PyNone"
proof (cases start)
  case ContinueSimulation
  with assms show ?thesis by (simp add: init_continue_simulation_def)
next
  case (SimulationFromPDB p t)
  with assms show ?thesis
    by (auto simp: init_simulation_from_pdb_def Let_def
        split: sum.splits prod.splits option.splits
        dest!: copy_to_workdir_sim init_simulation_failure_keeps_none[rotated])
next
  case (SimulationFromRestart d k)
  with assms show ?thesis
    by (auto simp: init_simulation_from_restart_def Let_def
        split: sum.splits prod.splits option.splits
        dest!: copy_to_workdir_sim init_simulation_failure_keeps_none[rotated])
qed

text \<open>
  Claim C3. A call of \<^verbatim>\<open>initialize_run\<close> with the start condition Continue, made while
  no simulation has been cached (the attribute still holds \<^verbatim>\<open>None\<close>), raises the
  RuntimeError of \<^verbatim>\<open>init_continue_simulation\<close>; the application is left exactly as it
  was, so no simulation has been constructed.
\<close>

theorem continue_without_cached_simulation_fails:
  "sim st = PyNone \<Longrightarrow>
     initialize_run e st ContinueSimulation =
       Inl (RuntimeError ''Tried to continue a simulation that doesn't exist.'', st)"
  by (simp add: init_continue_simulation_def)

text \<open>The instance of C3 on the application that has not run yet.\<close>

theorem continue_without_cached_simulation_fails_witness:
  "sim demo_app = PyNone \<and>
   initialize_run demo_env demo_app ContinueSimulation =
     Inl (RuntimeError ''Tried to continue a simulation that doesn't exist.'', demo_app)"
proof -
  have h: "sim demo_app = PyNone" by (simp add: demo_app_def)
  show ?thesis
    using h continue_without_cached_simulation_fails [OF h, of demo_env] by simp
qed

subsection \<open>Continuing with an engine\<close>

text \<open>
  Claim C1 as stated fails. On the application whose first run was initialised in
  \<^verbatim>\<open>out/run-b\<close> and whose working directory is now \<^verbatim>\<open>out/run-c\<close>, a Continue start
  replaces the cached structure path \<^verbatim>\<open>out/run-b/sys.pdb\<close> by \<^verbatim>\<open>out/run-c/sys.pdb\<close>, a
  file that did not exist before the call and holds a copy of the cached one after it.
\<close>

theorem continue_paths_not_verbatim:
  "case initialize_run demo_env demo_cached ContinueSimulation of
     Inl x \<Rightarrow> False
   | Inr st' \<Rightarrow>
       pdb_file demo_cached = Some [''out'', ''run-b'', ''sys.pdb''] \<and>
       pdb_file st' = Some [''out'', ''run-c'', ''sys.pdb''] \<and>
       fs_read (disk demo_cached) [''out'', ''run-c'', ''sys.pdb''] = None \<and>
       fs_read (disk st') [''out'', ''run-c'', ''sys.pdb''] =
         fs_read (disk demo_cached) [''out'', ''run-b'', ''sys.pdb''] \<and>
       fs_read (disk st') [''out'', ''run-c'', ''sys.pdb''] \<noteq> None"
  by (simp add: demo_cached_def demo_eval)

lemma init_continue_simulation_exact:
  assumes "init_continue_simulation st = Inr st'"
  shows "\<exists>s p cp. sim st = Cached s \<and> pdb_file st = Some p \<and> fs_read (disk st) p = Some cp \<and>
           (case top_file st of
              None \<Rightarrow>
                st' = st\<lparr>pdb_file := Some (workdir st @ [path_name p]), top_file := None,
                          disk := fs_write (disk st) (workdir st @ [path_name p]) cp\<rparr>
            | Some t \<Rightarrow>
                (\<exists>ct. fs_read (fs_write (disk st) (workdir st @ [path_name p]) cp) t = Some ct \<and>
                      st' = st\<lparr>pdb_file := Some (workdir st @ [path_name p]),
                                top_file := Some (workdir st @ [path_name t]),
                                disk := fs_write (fs_write (disk st) (workdir st @ [path_name p]) cp)
                                          (workdir st @ [path_name t]) ct\<rparr>))"
  using assms
  by (auto simp: init_continue_simulation_def copy_to_workdir_def Let_def
      split: sim_slot.splits option.splits sum.splits)

lemma demo_continued_top_run:
  "initialize_run demo_env demo_cached_top ContinueSimulation = Inr demo_continued_top"
  by (simp add: demo_continued_top_def demo_cached_top_def demo_eval)

lemma demo_cached_top_files:
  "workdir demo_cached_top = [''out'', ''run-c'']"
  "pdb_file demo_cached_top = Some [''out'', ''run-b'', ''sys.pdb'']"
  "top_file demo_cached_top = Some [''out'', ''run-b'', ''sys.prmtop'']"
  "fs_read (disk demo_cached_top) [''out'', ''run-b'', ''sys.pdb''] =
     Some (PDB [''CA'', ''CA''] (demo_frame 10))"
  "fs_read (disk demo_cached_top) [''out'', ''run-b'', ''sys.prmtop''] =
     Some (Prmtop [''CA'', ''CA''])"
  "fs_read (disk demo_cached_top) [''out'', ''run-c'', ''sys.pdb''] = None"
  "fs_read (disk demo_cached_top) [''out'', ''run-c'', ''sys.prmtop''] = None"
  by (simp_all add: demo_cached_top_def demo_eval)

text \<open>
  Claim C1, amended. A Continue start that returns normally had a cached engine and
  leaves it untouched (nothing is released or built). It copies the cached structure
  file and then the cached topology file, when there is one, into the current working
  directory, each under its own name and with the content of the file it is copied
  from, and the stored paths become the paths of the copies. The disk after the call is
  the disk before it with these one or two files written; so no file outside the
  working directory changes.
\<close>

theorem continue_reuses_engine_and_copies_files:
  assumes "initialize_run e st ContinueSimulation = Inr st'"
  shows "\<exists>s p cp.
           sim st = Cached s \<and> sim st' = Cached s \<and> events st' = events st \<and>
           pdb_file st = Some p \<and> fs_read (disk st) p = Some cp \<and>
           pdb_file st' = Some (workdir st @ [path_name p]) \<and>
           fs_read (disk st') (workdir st @ [path_name p]) \<noteq> None \<and>
           top_file st' = map_option (\<lambda>t. workdir st @ [path_name t]) (top_file st) \<and>
           (case top_file st of
              None \<Rightarrow>
                disk st' = fs_write (disk st) (workdir st @ [path_name p]) cp \<and>
                fs_read (disk st') (workdir st @ [path_name p]) = Some cp
            | Some t \<Rightarrow>
                (\<exists>ct. fs_read (fs_write (disk st) (workdir st @ [path_name p]) cp) t = Some ct \<and>
                      disk st' =
                        fs_write (fs_write (disk st) (workdir st @ [path_name p]) cp)
                          (workdir st @ [path_name t]) ct \<and>
                      fs_read (disk st') (workdir st @ [path_name t]) = Some ct \<and>
                      (t \<noteq> workdir st @ [path_name p] \<longrightarrow> fs_read (disk st) t = Some ct) \<and>
                      (path_name t \<noteq> path_name p \<longrightarrow>
                         fs_read (disk st') (workdir st @ [path_name p]) = Some cp))) \<and>
           (\<forall>r. path_parent r \<noteq> workdir st \<longrightarrow> fs_read (disk st') r = fs_read (disk st) r) \<and>
           config st' = config st \<and> workdir st' = workdir st \<and>
           persistent_dir st' = persistent_dir st"
proof -
  from assms have "init_continue_simulation st = Inr st'" by simp
  from init_continue_simulation_exact[OF this] obtain s p cp where
    s: "sim st = Cached s" and p: "pdb_file st = Some p" and cp: "fs_read (disk st) p = Some cp"
    and c: "case top_file st of
              None \<Rightarrow>
                st' = st\<lparr>pdb_file := Some (workdir st @ [path_name p]), top_file := None,
                          disk := fs_write (disk st) (workdir st @ [path_name p]) cp\<rparr>
            | Some t \<Rightarrow>
                (\<exists>ct. fs_read (fs_write (disk st) (workdir st @ [path_name p]) cp) t = Some ct \<and>
                      st' = st\<lparr>pdb_file := Some (workdir st @ [path_name p]),
                                top_file := Some (workdir st @ [path_name t]),
                                disk := fs_write (fs_write (disk st) (workdir st @ [path_name p]) cp)
                                          (workdir st @ [path_name t]) ct\<rparr>)"
    by blast
  show ?thesis
  proof (cases "top_file st")
    case None
    with c have st': "st' = st\<lparr>pdb_file := Some (workdir st @ [path_name p]), top_file := None,
                          disk := fs_write (disk st) (workdir st @ [path_name p]) cp\<rparr>"
      by simp
    have "\<forall>r. path_parent r \<noteq> workdir st \<longrightarrow>
            fs_read (fs_write (disk st) (workdir st @ [path_name p]) cp) r = fs_read (disk st) r"
      by (auto simp: fs_read_write)
    with s p cp None show ?thesis by (simp add: st' fs_read_write)
  next
    case (Some t)
    with c obtain ct where
      ct: "fs_read (fs_write (disk st) (workdir st @ [path_name p]) cp) t = Some ct"
      and st': "st' = st\<lparr>pdb_file := Some (workdir st @ [path_name p]),
                         top_file := Some (workdir st @ [path_name t]),
                         disk := fs_write (fs_write (disk st) (workdir st @ [path_name p]) cp)
                                   (workdir st @ [path_name t]) ct\<rparr>"
      by auto
    have k: "\<forall>r. path_parent r \<noteq> workdir st \<longrightarrow>
            fs_read (fs_write (fs_write (disk st) (workdir st @ [path_name p]) cp)
                       (workdir st @ [path_name t]) ct) r = fs_read (disk st) r"
      by (auto simp: fs_read_write)
    have src: "t \<noteq> workdir st @ [path_name p] \<longrightarrow> fs_read (disk st) t = Some ct"
      using ct by (auto simp: fs_read_write)
    have keep: "path_name t \<noteq> path_name p \<longrightarrow>
        fs_read (fs_write (fs_write (disk st) (workdir st @ [path_name p]) cp)
                   (workdir st @ [path_name t]) ct) (workdir st @ [path_name p]) = Some cp"
      by (auto simp: fs_read_write)
    have ne: "fs_read (fs_write (fs_write (disk st) (workdir st @ [path_name p]) cp)
                   (workdir st @ [path_name t]) ct) (workdir st @ [path_name p]) \<noteq> None"
      by (auto simp: fs_read_write)
    have dst: "fs_read (fs_write (fs_write (disk st) (workdir st @ [path_name p]) cp)
                   (workdir st @ [path_name t]) ct) (workdir st @ [path_name t]) = Some ct"
      by (simp add: fs_read_write)
    show ?thesis
      apply (rule exI[of _ s], rule exI[of _ p], rule exI[of _ cp])
      using s p cp Some ct k src keep ne dst
      by (simp add: st')
  qed
qed

text \<open>
  The instance of the amended C1 on the application whose first run was initialised in
  \<^verbatim>\<open>out/run-b\<close> with a topology file and whose working directory is now \<^verbatim>\<open>out/run-c\<close>:
  the structure file and the topology file of \<^verbatim>\<open>out/run-b\<close> are copied to \<^verbatim>\<open>out/run-c\<close>,
  where neither existed, and each copy holds what its source holds.
\<close>

theorem continue_reuses_engine_and_copies_files_witness:
  "initialize_run demo_env demo_cached_top ContinueSimulation = Inr demo_continued_top \<and>
   (\<exists>s. sim demo_cached_top = Cached s \<and> sim demo_continued_top = Cached s) \<and>
   events demo_continued_top = events demo_cached_top \<and>
   pdb_file demo_cached_top = Some [''out'', ''run-b'', ''sys.pdb''] \<and>
   top_file demo_cached_top = Some [''out'', ''run-b'', ''sys.prmtop''] \<and>
   pdb_file demo_continued_top = Some [''out'', ''run-c'', ''sys.pdb''] \<and>
   top_file demo_continued_top = Some [''out'', ''run-c'', ''sys.prmtop''] \<and>
   fs_read (disk demo_cached_top) [''out'', ''run-c'', ''sys.pdb''] = None \<and>
   fs_read (disk demo_cached_top) [''out'', ''run-c'', ''sys.prmtop''] = None \<and>
   fs_read (disk demo_continued_top) [''out'', ''run-c'', ''sys.pdb''] =
     Some (PDB [''CA'', ''CA''] (demo_frame 10)) \<and>
   fs_read (disk demo_continued_top) [''out'', ''run-c'', ''sys.prmtop''] =
     Some (Prmtop [''CA'', ''CA'']) \<and>
   fs_read (disk demo_continued_top) [''out'', ''run-b'', ''sys.pdb''] =
     fs_read (disk demo_cached_top) [''out'', ''run-b'', ''sys.pdb'']"
proof -
  note ev = demo_cached_top_files
  from continue_reuses_engine_and_copies_files [OF demo_continued_top_run]
  obtain s pa cp ct where
    s: "sim demo_cached_top = Cached s" "sim demo_continued_top = Cached s"
    and e: "events demo_continued_top = events demo_cached_top"
    and p: "pdb_file demo_cached_top = Some pa"
    and cp: "fs_read (disk demo_cached_top) pa = Some cp"
    and p': "pdb_file demo_continued_top = Some (workdir demo_cached_top @ [path_name pa])"
    and t': "top_file demo_continued_top =
               map_option (\<lambda>t. workdir demo_cached_top @ [path_name t]) (top_file demo_cached_top)"
    and dst: "fs_read (disk demo_continued_top)
                (workdir demo_cached_top @ [path_name [''out'', ''run-b'', ''sys.prmtop'']]) = Some ct"
    and src: "[''out'', ''run-b'', ''sys.prmtop''] \<noteq> workdir demo_cached_top @ [path_name pa] \<longrightarrow>
                fs_read (disk demo_cached_top) [''out'', ''run-b'', ''sys.prmtop''] = Some ct"
    and keep: "path_name [''out'', ''run-b'', ''sys.prmtop''] \<noteq> path_name pa \<longrightarrow>
                fs_read (disk demo_continued_top) (workdir demo_cached_top @ [path_name pa]) = Some cp"
    and k: "\<forall>r. path_parent r \<noteq> workdir demo_cached_top \<longrightarrow>
              fs_read (disk demo_continued_top) r = fs_read (disk demo_cached_top) r"
    by (auto simp: ev(3))
  from p have pa: "pa = [''out'', ''run-b'', ''sys.pdb'']" by (simp add: ev)
  from cp have cpv: "cp = PDB [''CA'', ''CA''] (demo_frame 10)" by (simp add: pa ev)
  from src have ctv: "ct = Prmtop [''CA'', ''CA'']" by (simp add: pa ev path_name_def)
  have c1: "pdb_file demo_continued_top = Some [''out'', ''run-c'', ''sys.pdb'']"
    using p' by (simp add: pa ev path_name_def)
  have c2: "top_file demo_continued_top = Some [''out'', ''run-c'', ''sys.prmtop'']"
    using t' by (simp add: ev path_name_def)
  have c3: "fs_read (disk demo_continued_top) [''out'', ''run-c'', ''sys.pdb''] =
      Some (PDB [''CA'', ''CA''] (demo_frame 10))"
    using keep by (simp add: pa ev path_name_def cpv)
  have c4: "fs_read (disk demo_continued_top) [''out'', ''run-c'', ''sys.prmtop''] =
      Some (Prmtop [''CA'', ''CA''])"
    using dst by (simp add: ev path_name_def ctv)
  have c5: "fs_read (disk demo_continued_top) [''out'', ''run-b'', ''sys.pdb''] =
      fs_read (disk demo_cached_top) [''out'', ''run-b'', ''sys.pdb'']"
    using k by (simp add: ev path_parent_def)
  from s have c0: "\<exists>s. sim demo_cached_top = Cached s \<and> sim demo_continued_top = Cached s"
    by blast
  from demo_continued_top_run c0 e ev(2) ev(3) c1 c2 ev(6) ev(7) c3 c4 c5
  show ?thesis by blast
qed

subsection \<open>The device index\<close>

text \<open>
  Claim C9 as stated fails. The settings of the concrete installation ask for device
  1 and CUDA loads, yet the engine built by \<^verbatim>\<open>initialize_run\<close> has the device index
  \<^verbatim>\<open>"0"\<close> among its platform properties.
\<close>

theorem settings_device_index_ignored:
  "case initialize_run demo_env demo_app (SimulationFromPDB [''data'', ''sys.pdb''] None) of
     Inl x \<Rightarrow> False
   | Inr st' \<Rightarrow>
       (case sim st' of
          Cached s \<Rightarrow>
            platform s = CUDA \<and> str_int (device_index (config demo_app)) = ''1'' \<and>
            map_of (platform_properties s) ''DeviceIndex'' = Some ''0''
        | _ \<Rightarrow> False)"
  by (simp add: demo_eval)

subsection \<open>Files found in a run directory\<close>

lemma glob_mem:
  "p \<in> set (glob fs d suf) \<Longrightarrow> p \<noteq> [] \<and> path_parent p = d \<and> ends_with (last p) suf"
  by (auto simp: glob_def)

lemma next_raise_Inr: "next_raise ps = Inr p \<Longrightarrow> p \<in> set ps"
  by (auto simp: next_raise_def split: list.splits)

lemma next_default_Some: "next_default ps = Some p \<Longrightarrow> p \<in> set ps"
  by (auto simp: next_default_def split: list.splits)

lemma find_top_file_Some:
  assumes "find_top_file fs d = Some t"
  shows "t \<noteq> [] \<and> path_parent t = d"
proof -
  from assms have "t \<in> set (glob fs d ''.top'') \<or> t \<in> set (glob fs d ''.prmtop'')"
    by (auto simp: find_top_file_def split: option.splits dest: next_default_Some)
  then show ?thesis using glob_mem by blast
qed

lemma parse_pdb_cong: "fs_read fs1 p = fs_read fs p \<Longrightarrow> parse_pdb fs1 p = parse_pdb fs p"
  by (simp add: parse_pdb_def)

lemma load_universe_traj_Inr:
  assumes "load_universe fs pdb_path (Some d) = Inr u"
  shows "\<exists>a f0 frames. parse_pdb fs pdb_path = Inr (a, f0) \<and> fs_read fs d = Some (DCD frames) \<and>
           frames \<noteq> [] \<and> (\<forall>g \<in> set frames. length (positions g) = length a) \<and>
           u = \<lparr>u_atoms = a, u_frames = frames, u_ts = 0\<rparr>"
  using assms
  by (auto simp: load_universe_def split: sum.splits option.splits file_content.splits if_splits)

lemma load_universe_single_Inr:
  assumes "load_universe fs pdb_path None = Inr u"
  shows "\<exists>a f0. parse_pdb fs pdb_path = Inr (a, f0) \<and> length (positions f0) = length a \<and>
           u = \<lparr>u_atoms = a, u_frames = [f0], u_ts = 0\<rparr>"
  using assms
  by (auto simp: load_universe_def split: sum.splits option.splits if_splits)

lemma write_pdb_frame_Inr:
  assumes "write_pdb_frame fs pdb_path d k out = Inr fs'"
  shows "\<exists>a f0 frames. parse_pdb fs pdb_path = Inr (a, f0) \<and> fs_read fs d = Some (DCD frames) \<and>
           0 \<le> (if k < 0 then int (length frames) + k else k) \<and>
           (if k < 0 then int (length frames) + k else k) < int (length frames) \<and>
           fs' = fs_write fs out
                   (PDB a (frames ! nat (if k < 0 then int (length frames) + k else k)))"
proof -
  from assms obtain u where u: "load_universe fs pdb_path (Some d) = Inr u"
    by (auto simp: write_pdb_frame_def split: sum.splits)
  from load_universe_traj_Inr[OF u] obtain a f0 frames where
    p: "parse_pdb fs pdb_path = Inr (a, f0)" and r: "fs_read fs d = Some (DCD frames)"
    and ueq: "u = \<lparr>u_atoms = a, u_frames = frames, u_ts = 0\<rparr>"
    by blast
  from assms u ueq show ?thesis
    using p r
    by (auto simp: write_pdb_frame_def seek_frame_def Let_def split: sum.splits if_splits)
qed

lemma copy_top_keeps_source_dir:
  assumes c: "copy_to_workdir st (find_top_file (disk st) d) = Inr (st1, t')"
    and r: "path_parent r = d"
  shows "fs_read (disk st1) r = fs_read (disk st) r"
proof (cases "find_top_file (disk st) d")
  case None
  with c show ?thesis by simp
next
  case (Some t)
  from find_top_file_Some[OF Some] have t: "t \<noteq> []" "path_parent t = d" by auto
  from copy_to_workdir_Inr(2)[OF c] Some obtain fs1 where
    st1: "st1 = st\<lparr>disk := fs1\<rparr>" and ne: "fs_read (disk st) t \<noteq> None"
    and fs1: "fs1 = fs_write (disk st) (workdir st @ [path_name t]) (the (fs_read (disk st) t))"
    by auto
  show ?thesis
  proof (cases "r = workdir st @ [path_name t]")
    case True
    with r have "d = workdir st" by simp
    with t have "t = workdir st @ [path_name t]"
      using append_butlast_last_id[of t] by (simp add: path_name_def path_parent_def)
    with True ne show ?thesis by (auto simp: st1 fs1 fs_read_write)
  next
    case False
    then show ?thesis by (simp add: st1 fs1 fs_read_write)
  qed
qed

lemma init_simulation_from_restart_Inr:
  assumes "init_simulation_from_restart e st d k = Inr st'"
  shows "\<exists>old_pdb dcd a f0 frames fs1 s.
           next_raise (glob (disk st) d ''.pdb'') = Inr old_pdb \<and>
           next_raise (glob (disk st) d ''.dcd'') = Inr dcd \<and>
           parse_pdb (disk st) old_pdb = Inr (a, f0) \<and>
           fs_read (disk st) dcd = Some (DCD frames) \<and>
           0 \<le> (if k < 0 then int (length frames) + k else k) \<and>
           (if k < 0 then int (length frames) + k else k) < int (length frames) \<and>
           (\<forall>r. path_parent r \<noteq> workdir st \<longrightarrow> fs_read fs1 r = fs_read (disk st) r) \<and>
           sim st \<noteq> Deleted \<and>
           build_simulation e
             (st\<lparr>disk := fs_write fs1 (workdir st @ [pdb_name old_pdb k])
                            (PDB a (frames ! nat (if k < 0 then int (length frames) + k else k)))\<rparr>)
             (workdir st @ [pdb_name old_pdb k])
             (map_option (\<lambda>q. workdir st @ [path_name q]) (find_top_file (disk st) d)) = Inr s \<and>
           st' = st\<lparr>top_file := map_option (\<lambda>q. workdir st @ [path_name q])
                                   (find_top_file (disk st) d),
                     pdb_file := Some (workdir st @ [pdb_name old_pdb k]),
                     disk := fs_write fs1 (workdir st @ [pdb_name old_pdb k])
                               (PDB a (frames ! nat (if k < 0 then int (length frames) + k else k))),
                     sim := Cached s,
                     events := events st @ release_events (sim st) @ [Built s]\<rparr>"
proof -
  let ?top = "find_top_file (disk st) d"
  from assms obtain old_pdb where o: "next_raise (glob (disk st) d ''.pdb'') = Inr old_pdb"
    by (auto simp: init_simulation_from_restart_def split: sum.splits)
  from assms o obtain dcd where dc: "next_raise (glob (disk st) d ''.dcd'') = Inr dcd"
    by (auto simp: init_simulation_from_restart_def split: sum.splits)
  from assms o dc obtain st1 t' where c: "copy_to_workdir st ?top = Inr (st1, t')"
    by (auto simp: init_simulation_from_restart_def split: sum.splits)
  from copy_to_workdir_Inr[OF c] obtain fs1 where
    t': "t' = map_option (\<lambda>q. workdir st @ [path_name q]) ?top" and st1: "st1 = st\<lparr>disk := fs1\<rparr>"
    and fs1: "\<forall>r. path_parent r \<noteq> workdir st \<longrightarrow> fs_read fs1 r = fs_read (disk st) r"
    by auto
  let ?new = "workdir st @ [pdb_name old_pdb k]"
  let ?st3 = "st\<lparr>disk := fs1, top_file := t', pdb_file := Some ?new\<rparr>"
  from assms o dc c obtain fs' where
    w: "write_pdb_frame fs1 old_pdb dcd k ?new = Inr fs'"
    and i: "init_simulation e (?st3\<lparr>disk := fs'\<rparr>) ?new t' = Inr st'"
    by (auto simp: init_simulation_from_restart_def Let_def st1 split: sum.splits)
  from write_pdb_frame_Inr[OF w] obtain a f0 frames where
    p1: "parse_pdb fs1 old_pdb = Inr (a, f0)" and r1: "fs_read fs1 dcd = Some (DCD frames)"
    and j: "0 \<le> (if k < 0 then int (length frames) + k else k)"
       "(if k < 0 then int (length frames) + k else k) < int (length frames)"
    and fs': "fs' = fs_write fs1 ?new
                (PDB a (frames ! nat (if k < 0 then int (length frames) + k else k)))"
    by blast
  have po: "path_parent old_pdb = d" and pd: "path_parent dcd = d"
    using next_raise_Inr[OF o] next_raise_Inr[OF dc] glob_mem by blast+
  have same: "\<And>r. path_parent r = d \<Longrightarrow> fs_read fs1 r = fs_read (disk st) r"
    using copy_top_keeps_source_dir[OF c] by (simp add: st1)
  have p: "parse_pdb (disk st) old_pdb = Inr (a, f0)"
    using p1 parse_pdb_cong[OF same[OF po]] by simp
  have r: "fs_read (disk st) dcd = Some (DCD frames)"
    using r1 same[OF pd] by simp
  from init_simulation_Inr[OF i] obtain s where
    nd: "sim st \<noteq> Deleted"
    and b: "build_simulation e (?st3\<lparr>disk := fs'\<rparr>) ?new t' = Inr s"
    and e: "st' = ?st3\<lparr>disk := fs', sim := Cached s,
                       events := events st @ release_events (sim st) @ [Built s]\<rparr>"
    by auto
  have b': "build_simulation e (st\<lparr>disk := fs'\<rparr>) ?new t' = Inr s"
    using b by (simp add: build_simulation_def)
  show ?thesis
    apply (rule exI[of _ old_pdb], rule exI[of _ dcd], rule exI[of _ a], rule exI[of _ f0],
           rule exI[of _ frames], rule exI[of _ fs1], rule exI[of _ s])
    using o dc p r j fs1 nd b' e by (simp add: fs' t')
qed

lemma initialize_run_build:
  assumes "initialize_run e st start = Inr st'" and "start \<noteq> ContinueSimulation"
  shows "\<exists>s fs0 p t. sim st \<noteq> Deleted \<and> build_simulation e (st\<lparr>disk := fs0\<rparr>) p t = Inr s \<and>
           sim st' = Cached s \<and> events st' = events st @ release_events (sim st) @ [Built s]"
proof (cases start)
  case ContinueSimulation
  with assms show ?thesis by simp
next
  case (SimulationFromPDB p t)
  with assms have "init_simulation_from_pdb e st p t = Inr st'" by simp
  from init_simulation_from_pdb_Inr[OF this] show ?thesis by force
next
  case (SimulationFromRestart d k)
  with assms have "init_simulation_from_restart e st d k = Inr st'" by simp
  from init_simulation_from_restart_Inr[OF this] show ?thesis by force
qed

subsection \<open>Decimal strings\<close>

lemma length_digits_le: "n < 10 ^ m \<Longrightarrow> 0 < m \<Longrightarrow> length (digits n) \<le> m"
proof (induction n arbitrary: m rule: digits.induct)
  case (1 n)
  show ?case
  proof (cases "n < 10")
    case True
    with 1 show ?thesis by (simp add: digits.simps)
  next
    case False
    from 1(3) obtain m' where m: "m = Suc m'" by (cases m) auto
    with False 1(2) have m': "0 < m'" by (cases m') auto
    from 1(2) m have "n div 10 < 10 ^ m'" by (simp add: less_mult_imp_div_less mult.commute)
    from 1(1)[OF False this m'] False m show ?thesis by (simp add: digits.simps[of n])
  qed
qed

lemma digit_value_digit_char: "d < 10 \<Longrightarrow> digit_value (digit_char d) = d"
proof -
  assume "d < 10"
  then have "d \<in> {0, 1, 2, 3, 4, 5, 6, 7, 8, 9}" by auto
  then show ?thesis
    by (auto simp: digit_value_def digit_char_def)
qed

lemma decimal_value_snoc:
  "decimal_value (cs @ [c]) = 10 * decimal_value cs + digit_value c"
  by (simp add: decimal_value_def)

lemma decimal_value_digits: "decimal_value (digits n) = n"
proof (induction n rule: digits.induct)
  case (1 n)
  show ?case
  proof (cases "n < 10")
    case True
    then show ?thesis
      by (simp add: digits.simps[of n] decimal_value_def digit_value_digit_char)
  next
    case False
    with 1 show ?thesis
      by (simp add: digits.simps[of n] decimal_value_snoc digit_value_digit_char)
  qed
qed

lemma decimal_value_zeros: "decimal_value (replicate m CHR ''0'' @ cs) = decimal_value cs"
proof -
  have z: "digit_value CHR ''0'' = 0" by (simp add: digit_value_def)
  have "decimal_value (replicate m CHR ''0'') = 0"
  proof (induction m)
    case 0
    show ?case by (simp add: decimal_value_def)
  next
    case (Suc m)
    have "replicate (Suc m) CHR ''0'' = replicate m CHR ''0'' @ [CHR ''0'']"
      by (simp add: replicate_append_same)
    with Suc z show ?case by (simp only: decimal_value_snoc)
  qed
  then show ?thesis by (simp add: decimal_value_def)
qed

lemma format_06_six_digits:
  assumes "0 \<le> k" and "k < 1000000"
  shows "length (format_06 k) = 6 \<and> decimal_value (format_06 k) = nat k"
proof -
  from assms have "nat k < 10 ^ 6" by simp
  then have "length (digits (nat k)) \<le> 6" by (rule length_digits_le) simp
  with assms show ?thesis
    by (simp add: format_06_def decimal_value_zeros decimal_value_digits)
qed

lemma length_digits_gt: "10 ^ m \<le> n \<Longrightarrow> m < length (digits n)"
proof (induction n arbitrary: m rule: digits.induct)
  case (1 n)
  show ?case
  proof (cases m)
    case 0
    then show ?thesis by (simp add: digits.simps[of n])
  next
    case (Suc m')
    with 1(2) have ge: "10 * 10 ^ m' \<le> n" by simp
    then have nl: "\<not> n < 10" by (cases "(10::nat) ^ m'") auto
    from ge have "10 ^ m' \<le> n div 10" by simp
    from 1(1)[OF nl this] nl Suc show ?thesis by (simp add: digits.simps[of n])
  qed
qed

lemma format_06_negative:
  assumes "- 100000 < k" and "k < 0"
  shows "length (format_06 k) = 6 \<and> hd (format_06 k) = CHR ''-'' \<and>
         decimal_value (tl (format_06 k)) = nat (- k)"
proof -
  from assms have "nat (- k) < 10 ^ 5" by simp
  then have "length (digits (nat (- k))) \<le> 5" by (rule length_digits_le) simp
  with assms show ?thesis
    by (simp add: format_06_def decimal_value_zeros decimal_value_digits)
qed

lemma format_06_wide:
  assumes "1000000 \<le> k"
  shows "6 < length (format_06 k) \<and> decimal_value (format_06 k) = nat k"
proof -
  from assms have "10 ^ 6 \<le> nat k" by simp
  then have "6 < length (digits (nat k))" by (rule length_digits_gt)
  with assms show ?thesis
    by (simp add: format_06_def decimal_value_digits)
qed

subsection \<open>The device index, amended\<close>

lemma select_platform_zero:
  "select_platform e 0 = Inr (pl, props) \<Longrightarrow> pl \<noteq> CPU \<Longrightarrow>
     map_of props ''DeviceIndex'' = Some ''0''"
  by (auto simp: select_platform_def str_int_def digits.simps digit_char_def split: if_splits)

text \<open>
  Claim C9, amended. Every call of \<^verbatim>\<open>initialize_run\<close> that builds an engine selects the
  backend with the device index 0, the constant that \<^verbatim>\<open>init_simulation\<close> passes as
  \<^verbatim>\<open>gpu_index\<close>, whatever the settings hold; when the backend is an accelerator (CUDA or
  OpenCL) the entry \<^verbatim>\<open>DeviceIndex\<close> of its properties is \<^verbatim>\<open>"0"\<close>.
\<close>

theorem device_index_is_always_zero:
  assumes "initialize_run e st start = Inr st'" and "start \<noteq> ContinueSimulation"
  shows "\<exists>s. sim st' = Cached s \<and>
             select_platform e 0 = Inr (platform s, platform_properties s) \<and>
             (platform s \<noteq> CPU \<longrightarrow> map_of (platform_properties s) ''DeviceIndex'' = Some ''0'')"
proof -
  from initialize_run_build[OF assms] obtain s fs0 p t where
    b: "build_simulation e (st\<lparr>disk := fs0\<rparr>) p t = Inr s" and s: "sim st' = Cached s"
    by blast
  from build_simulation_Inr(1)[OF b] s select_platform_zero show ?thesis by blast
qed

text \<open>
  The instance of the amended C9 on the application that starts from a structure file.
\<close>

theorem device_index_is_always_zero_witness:
  "initialize_run demo_env demo_app (SimulationFromPDB [''data'', ''sys.pdb''] None) =
     Inr demo_initialized \<and>
   SimulationFromPDB [''data'', ''sys.pdb''] None \<noteq> ContinueSimulation \<and>
   device_index (config demo_app) = 1 \<and>
   (\<exists>s. sim demo_initialized = Cached s \<and> platform s = CUDA \<and>
        map_of (platform_properties s) ''DeviceIndex'' = Some ''0'')"
proof -
  have d: "device_index (config demo_app) = 1"
    by (simp add: demo_app_def demo_settings_def)
  have p: "select_platform demo_env 0 =
      Inr (CUDA, [(''DeviceIndex'', ''0''), (''CudaPrecision'', ''mixed'')])"
    by (simp add: select_platform_def demo_env_def str_int_def digits.simps digit_char_def)
  from device_index_is_always_zero [OF demo_initialized_run]
  obtain s where "sim demo_initialized = Cached s"
    and "select_platform demo_env 0 = Inr (platform s, platform_properties s)"
    and "platform s \<noteq> CPU \<longrightarrow> map_of (platform_properties s) ''DeviceIndex'' = Some ''0''"
    by auto
  with p have "sim demo_initialized = Cached s \<and> platform s = CUDA \<and>
      map_of (platform_properties s) ''DeviceIndex'' = Some ''0''"
    by auto
  with demo_initialized_run d show ?thesis by blast
qed

subsection \<open>Replacing the cached engine\<close>

lemma demo_rebuilt_run:
  "initialize_run demo_env demo_cached (SimulationFromPDB [''data'', ''sys.pdb''] None) =
     Inr demo_rebuilt"
  by (simp add: demo_rebuilt_def demo_cached_def demo_eval)

text \<open>
  Claim C4 as stated fails in its second half. When the application that holds a cached
  engine is started from a structure file, the old engine is released and only then
  is the new one built. And when the build fails (the structure path given here leads
  to a trajectory file, which does not parse as a structure), the call is left with the
  attribute deleted: the old engine has been released although no new one exists.
\<close>

theorem old_engine_released_before_new_is_built:
  "(case (sim demo_cached,
          initialize_run demo_env demo_cached (SimulationFromPDB [''data'', ''sys.pdb''] None)) of
      (Cached old, Inr st') \<Rightarrow>
        (case sim st' of
           Cached new \<Rightarrow> events st' = events demo_cached @ [Released old, Built new]
         | _ \<Rightarrow> False)
    | _ \<Rightarrow> False) \<and>
   (case (sim demo_cached,
          initialize_run demo_env demo_cached
            (SimulationFromPDB [''out'', ''run-a'', ''sim.dcd''] None)) of
      (Cached old, Inl (err, st')) \<Rightarrow>
        err = ParseError [''out'', ''run-c'', ''sim.dcd''] \<and> sim st' = Deleted \<and>
        events st' = events demo_cached @ [Released old]
    | _ \<Rightarrow> False)"
  by (simp add: demo_cached_def demo_eval)

text \<open>
  Claim C4, amended. After a call of \<^verbatim>\<open>initialize_run\<close> that returns normally the manager
  holds either the engine it had, untouched (Continue), or an engine that
  \<^verbatim>\<open>configure_simulation\<close> has built completely: positions set, energy minimised,
  velocities drawn, no step taken, no reporter attached. When an engine is replaced, the
  old one is released first and the new one is built and installed afterwards.
\<close>

theorem initialize_run_engine_outcome:
  assumes "initialize_run e st start = Inr st'"
  shows "(start = ContinueSimulation \<and> (\<exists>s. sim st = Cached s) \<and> sim st' = sim st \<and>
          events st' = events st) \<or>
         (start \<noteq> ContinueSimulation \<and>
          (\<exists>new. sim st' = Cached new \<and> currentStep new = 0 \<and> reporters new = [] \<and>
                 context_positions new \<noteq> None \<and> minimized new \<and> velocities new \<noteq> None \<and>
                 events st' = events st @ release_events (sim st) @ [Built new]))"
proof (cases "start = ContinueSimulation")
  case True
  with assms have "initialize_run e st ContinueSimulation = Inr st'" by simp
  from initialize_run_continue_Inr[OF this] True show ?thesis by auto
next
  case False
  from initialize_run_build[OF assms False] obtain s fs0 p t where
    b: "build_simulation e (st\<lparr>disk := fs0\<rparr>) p t = Inr s" and s: "sim st' = Cached s"
    and ev: "events st' = events st @ release_events (sim st) @ [Built s]"
    by blast
  from build_simulation_Inr[OF b] s ev False show ?thesis by auto
qed

text \<open>
  The instance of the amended C4 on the replacement of a cached engine.
\<close>

theorem initialize_run_engine_outcome_witness:
  "initialize_run demo_env demo_cached (SimulationFromPDB [''data'', ''sys.pdb''] None) =
     Inr demo_rebuilt \<and>
   (\<exists>new. sim demo_rebuilt = Cached new \<and> currentStep new = 0 \<and> reporters new = [] \<and>
          context_positions new \<noteq> None \<and> minimized new \<and> velocities new \<noteq> None \<and>
          events demo_rebuilt =
            events demo_cached @ release_events (sim demo_cached) @ [Built new])"
  using demo_rebuilt_run initialize_run_engine_outcome [OF demo_rebuilt_run]
  by simp

subsection \<open>Restarting from a frame\<close>

lemma demo_restarted_run:
  "initialize_run demo_env demo_cached (SimulationFromRestart [''out'', ''run-a''] 3) =
     Inr demo_restarted"
  by (simp add: demo_restarted_def demo_cached_def demo_eval format_06_def)

lemma format_06_minus_one: "format_06 (- 1) = ''-00001''"
proof -
  have "digits 1 = ''1''" by (simp add: digits.simps digit_char_def)
  then show ?thesis by (simp add: format_06_def numeral_eq_Suc)
qed

text \<open>
  Claim C7 as stated fails for a negative frame index, which the trajectory reader
  accepts and counts from the end. A start from the frame \<open>-1\<close> of the run directory
  \<^verbatim>\<open>out/run-a\<close> returns normally and writes the last frame of the trajectory; the file
  is named \<^verbatim>\<open>run-a_frame-00001.pdb\<close>: after \<^verbatim>\<open>_frame\<close> come a minus sign and five digits,
  not the index padded with zeros to six digits.
\<close>

theorem restart_from_last_frame_is_not_named_by_six_digits:
  "\<exists>st'. initialize_run demo_env demo_cached (SimulationFromRestart [''out'', ''run-a''] (- 1)) =
           Inr st' \<and>
         pdb_file st' = Some [''out'', ''run-c'', ''run-a_frame-00001.pdb''] \<and>
         fs_read (disk st') [''out'', ''run-c'', ''run-a_frame-00001.pdb''] =
           Some (PDB [''CA'', ''CA''] (demo_frame 40)) \<and>
         format_06 (- 1) = ''-00001''"
  by (simp add: demo_cached_def demo_eval format_06_minus_one)

text \<open>
  Claim C7, amended. A start from the frame \<open>k\<close> of the run directory \<open>d\<close> that returns
  normally has taken the first \<^verbatim>\<open>*.pdb\<close> and the first \<^verbatim>\<open>*.dcd\<close> of \<open>d\<close>, and has written
  the frame \<open>k\<close> of that trajectory (counted from the end when \<open>k\<close> is negative) as a
  structure file in the working directory, named by the name of \<open>d\<close>, then
  \<^verbatim>\<open>_frame\<close>, then \<open>k\<close> in the format \<^verbatim>\<open>06\<close>, then \<^verbatim>\<open>.pdb\<close>. For \<open>0 \<le> k < 10\<^sup>6\<close> the
  formatted number has exactly six digits and reads back as \<open>k\<close>; for
  \<open>-10\<^sup>5 < k < 0\<close> it is a minus sign followed by five digits that read back as \<open>-k\<close>;
  for \<open>10\<^sup>6 \<le> k\<close> it has more than six digits and reads back as \<open>k\<close>. The topology is
  the first \<^verbatim>\<open>*.top\<close> of \<open>d\<close> and, only when there is none, the first \<^verbatim>\<open>*.prmtop\<close>; its
  copy in the working directory is the one that is used. The new engine takes its
  positions from the written file, that is from the frame \<open>k\<close> and not from the
  structure file of \<open>d\<close>.
\<close>

theorem restart_extracts_frame_into_named_structure_file:
  assumes "initialize_run e st (SimulationFromRestart d k) = Inr st'"
  shows "\<exists>old_pdb dcd a f0 frames s.
           next_raise (glob (disk st) d ''.pdb'') = Inr old_pdb \<and>
           next_raise (glob (disk st) d ''.dcd'') = Inr dcd \<and>
           parse_pdb (disk st) old_pdb = Inr (a, f0) \<and>
           fs_read (disk st) dcd = Some (DCD frames) \<and>
           nat (if k < 0 then int (length frames) + k else k) < length frames \<and>
           pdb_file st' = Some (workdir st @ [path_name d @ ''_frame'' @ format_06 k @ ''.pdb'']) \<and>
           fs_read (disk st') (workdir st @ [path_name d @ ''_frame'' @ format_06 k @ ''.pdb'']) =
             Some (PDB a (frames ! nat (if k < 0 then int (length frames) + k else k))) \<and>
           top_file st' =
             map_option (\<lambda>q. workdir st @ [path_name q])
               (case next_default (glob (disk st) d ''.top'') of
                  Some t \<Rightarrow> Some t
                | None \<Rightarrow> next_default (glob (disk st) d ''.prmtop'')) \<and>
           sim st' = Cached s \<and>
           context_positions s =
             Some (positions (frames ! nat (if k < 0 then int (length frames) + k else k))) \<and>
           (0 \<le> k \<and> k < 1000000 \<longrightarrow>
              length (format_06 k) = 6 \<and> decimal_value (format_06 k) = nat k) \<and>
           (- 100000 < k \<and> k < 0 \<longrightarrow>
              length (format_06 k) = 6 \<and> hd (format_06 k) = CHR ''-'' \<and>
              decimal_value (tl (format_06 k)) = nat (- k)) \<and>
           (1000000 \<le> k \<longrightarrow>
              6 < length (format_06 k) \<and> decimal_value (format_06 k) = nat k)"
proof -
  from assms have "init_simulation_from_restart e st d k = Inr st'" by simp
  from init_simulation_from_restart_Inr[OF this] obtain old_pdb dcd a f0 frames fs1 s where
    o: "next_raise (glob (disk st) d ''.pdb'') = Inr old_pdb"
    and dc: "next_raise (glob (disk st) d ''.dcd'') = Inr dcd"
    and p: "parse_pdb (disk st) old_pdb = Inr (a, f0)"
    and r: "fs_read (disk st) dcd = Some (DCD frames)"
    and j: "0 \<le> (if k < 0 then int (length frames) + k else k)"
       "(if k < 0 then int (length frames) + k else k) < int (length frames)"
    and b: "build_simulation e
             (st\<lparr>disk := fs_write fs1 (workdir st @ [pdb_name old_pdb k])
                            (PDB a (frames ! nat (if k < 0 then int (length frames) + k else k)))\<rparr>)
             (workdir st @ [pdb_name old_pdb k])
             (map_option (\<lambda>q. workdir st @ [path_name q]) (find_top_file (disk st) d)) = Inr s"
    and st': "st' = st\<lparr>top_file := map_option (\<lambda>q. workdir st @ [path_name q])
                                   (find_top_file (disk st) d),
                     pdb_file := Some (workdir st @ [pdb_name old_pdb k]),
                     disk := fs_write fs1 (workdir st @ [pdb_name old_pdb k])
                               (PDB a (frames ! nat (if k < 0 then int (length frames) + k else k))),
                     sim := Cached s,
                     events := events st @ release_events (sim st) @ [Built s]\<rparr>"
    by blast
  have "path_parent old_pdb = d" using next_raise_Inr[OF o] glob_mem by blast
  then have name: "pdb_name old_pdb k = path_name d @ ''_frame'' @ format_06 k @ ''.pdb''"
    by (simp add: pdb_name_def)
  from build_simulation_Inr(6)[OF b]
  have pos: "context_positions s =
      Some (positions (frames ! nat (if k < 0 then int (length frames) + k else k)))"
    by (auto simp: parse_pdb_def fs_read_write)
  have top: "find_top_file (disk st) d =
      (case next_default (glob (disk st) d ''.top'') of
         Some t \<Rightarrow> Some t | None \<Rightarrow> next_default (glob (disk st) d ''.prmtop''))"
    by (simp add: find_top_file_def split: option.splits)
  have idx: "nat (if k < 0 then int (length frames) + k else k) < length frames"
    using j by linarith
  show ?thesis
    apply (rule exI[of _ old_pdb], rule exI[of _ dcd], rule exI[of _ a], rule exI[of _ f0],
           rule exI[of _ frames], rule exI[of _ s])
    using o dc p r idx pos format_06_six_digits[of k] format_06_negative[of k]
      format_06_wide[of k]
    by (simp add: st' name top fs_read_write)
qed

lemma format_06_three: "format_06 3 = ''000003''"
proof -
  have "digits 3 = ''3''" by (simp add: digits.simps digit_char_def)
  then show ?thesis by (simp add: format_06_def numeral_eq_Suc)
qed

lemma demo_cached_restart_files:
  "workdir demo_cached = [''out'', ''run-c'']"
  "glob (disk demo_cached) [''out'', ''run-a''] ''.top'' = []"
  "glob (disk demo_cached) [''out'', ''run-a''] ''.prmtop'' = [[''out'', ''run-a'', ''sys.prmtop'']]"
  "glob (disk demo_cached) [''out'', ''run-a''] ''.dcd'' = [[''out'', ''run-a'', ''sim.dcd'']]"
  "glob (disk demo_cached) [''out'', ''run-a''] ''.pdb'' = [[''out'', ''run-a'', ''sys.pdb'']]"
  "fs_read (disk demo_cached) [''out'', ''run-a'', ''sim.dcd''] =
     Some (DCD [demo_frame 10, demo_frame 20, demo_frame 30, demo_frame 40])"
  "parse_pdb (disk demo_cached) [''out'', ''run-a'', ''sys.pdb''] =
     Inr ([''CA'', ''CA''], demo_frame 10)"
  by (simp_all add: demo_cached_def demo_eval)

text \<open>
  The instance of C7 for the frame 3 of the run directory \<^verbatim>\<open>out/run-a\<close>: the file is
  \<^verbatim>\<open>run-a_frame000003.pdb\<close>, it holds the fourth frame, and the topology found is the
  \<^verbatim>\<open>.prmtop\<close> file because there is no \<^verbatim>\<open>.top\<close> file.
\<close>

theorem restart_extracts_frame_into_named_structure_file_witness:
  "initialize_run demo_env demo_cached (SimulationFromRestart [''out'', ''run-a''] 3) =
     Inr demo_restarted \<and>
   pdb_file demo_restarted = Some [''out'', ''run-c'', ''run-a_frame000003.pdb''] \<and>
   top_file demo_restarted = Some [''out'', ''run-c'', ''sys.prmtop''] \<and>
   fs_read (disk demo_restarted) [''out'', ''run-c'', ''run-a_frame000003.pdb''] =
     Some (PDB [''CA'', ''CA''] (demo_frame 40)) \<and>
   (\<exists>s. sim demo_restarted = Cached s \<and>
        context_positions s = Some (positions (demo_frame 40))) \<and>
   length (format_06 3) = 6 \<and> decimal_value (format_06 3) = 3"
proof -
  from restart_extracts_frame_into_named_structure_file [OF demo_restarted_run]
  obtain old_pdb dcd a f0 frames s where
    o: "next_raise (glob (disk demo_cached) [''out'', ''run-a''] ''.pdb'') = Inr old_pdb"
    and d: "next_raise (glob (disk demo_cached) [''out'', ''run-a''] ''.dcd'') = Inr dcd"
    and p: "parse_pdb (disk demo_cached) old_pdb = Inr (a, f0)"
    and r: "fs_read (disk demo_cached) dcd = Some (DCD frames)"
    and pf: "pdb_file demo_restarted =
        Some (workdir demo_cached @
              [path_name [''out'', ''run-a''] @ ''_frame'' @ format_06 3 @ ''.pdb''])"
    and rd: "fs_read (disk demo_restarted)
         (workdir demo_cached @
          [path_name [''out'', ''run-a''] @ ''_frame'' @ format_06 3 @ ''.pdb'']) =
        Some (PDB a (frames ! nat (if (3::int) < 0 then int (length frames) + 3 else 3)))"
    and tf: "top_file demo_restarted =
        map_option (\<lambda>q. workdir demo_cached @ [path_name q])
          (case next_default (glob (disk demo_cached) [''out'', ''run-a''] ''.top'') of
             Some t \<Rightarrow> Some t
           | None \<Rightarrow> next_default (glob (disk demo_cached) [''out'', ''run-a''] ''.prmtop''))"
    and s: "sim demo_restarted = Cached s"
    and cp: "context_positions s =
        Some (positions (frames ! nat (if (3::int) < 0 then int (length frames) + 3 else 3)))"
    and fm: "(0::int) \<le> 3 \<and> (3::int) < 1000000 \<longrightarrow>
        length (format_06 3) = 6 \<and> decimal_value (format_06 3) = nat 3"
    by blast
  from o have old: "old_pdb = [''out'', ''run-a'', ''sys.pdb'']"
    by (simp add: demo_cached_restart_files next_raise_def)
  from d have dcd: "dcd = [''out'', ''run-a'', ''sim.dcd'']"
    by (simp add: demo_cached_restart_files next_raise_def)
  from p old have a: "a = [''CA'', ''CA'']"
    by (simp add: demo_cached_restart_files)
  from r dcd have fr: "frames = [demo_frame 10, demo_frame 20, demo_frame 30, demo_frame 40]"
    by (simp add: demo_cached_restart_files)
  have nm: "workdir demo_cached @
      [path_name [''out'', ''run-a''] @ ''_frame'' @ format_06 3 @ ''.pdb''] =
      [''out'', ''run-c'', ''run-a_frame000003.pdb'']"
    by (simp add: demo_cached_restart_files format_06_three path_name_def)
  have c1: "pdb_file demo_restarted = Some [''out'', ''run-c'', ''run-a_frame000003.pdb'']"
    using pf by (simp only: nm)
  have c2: "top_file demo_restarted = Some [''out'', ''run-c'', ''sys.prmtop'']"
    using tf by (simp add: demo_cached_restart_files next_default_def path_name_def)
  have c3: "fs_read (disk demo_restarted) [''out'', ''run-c'', ''run-a_frame000003.pdb''] =
      Some (PDB [''CA'', ''CA''] (demo_frame 40))"
    using rd unfolding nm by (simp add: a fr)
  have c4: "context_positions s = Some (positions (demo_frame 40))"
    using cp by (simp add: fr)
  have c5: "length (format_06 3) = 6 \<and> decimal_value (format_06 3) = 3"
    using fm by simp
  from demo_restarted_run c1 c2 c3 s c4 c5 show ?thesis by blast
qed

subsection \<open>The analysis loop\<close>

lemma analyze_frames_acc:
  "analyze_frames e c idx rp box fr (rows, cols, rm) =
     (rows @ map (\<lambda>f. frame_rows e c box (atom_positions idx f)) fr,
      cols @ map (\<lambda>f. frame_cols e c box (atom_positions idx f)) fr,
      rm @ map (\<lambda>f. rmsd e (atom_positions idx f) rp) fr)"
  by (induction fr arbitrary: rows cols rm) (simp_all add: Let_def)

lemma map_concat_zip:
  "map (\<lambda>(r, c). r @ c) (zip (map g xs) (map h xs)) = map (\<lambda>x. g x @ h x) xs"
  by (induction xs) simp_all

lemma analyze_universe_eq:
  "analyze_universe e cfg u ref =
     (map (\<lambda>f. frame_rows e (cutoff_angstrom cfg) (dimensions (u_frames u ! u_ts u))
                 (atom_positions (select_atoms e (mda_selection cfg) (u_atoms u)) f) @
               frame_cols e (cutoff_angstrom cfg) (dimensions (u_frames u ! u_ts u))
                 (atom_positions (select_atoms e (mda_selection cfg) (u_atoms u)) f))
        (u_frames u),
      map (\<lambda>f. rmsd e (atom_positions (select_atoms e (mda_selection cfg) (u_atoms u)) f)
                 (atom_positions (select_atoms e (mda_selection cfg) (u_atoms ref))
                    (u_frames ref ! u_ts ref)))
        (u_frames u))"
  by (simp add: analyze_universe_def Let_def analyze_frames_acc map_concat_zip)

lemma dimensions_align_frame [simp]: "dimensions (align_frame e mi rp f) = dimensions f"
  by (simp add: align_frame_def)

lemma dimensions_aligned_first:
  "frames \<noteq> [] \<Longrightarrow> dimensions (map (align_frame e mi rp) frames ! 0) = dimensions (hd frames)"
  by (cases frames) simp_all

lemma analyze_simulation_Inr:
  assumes "analyze_simulation e cfg fs pdb traj = Inr (cms, rmsds)"
  shows "\<exists>a f0 frames ra rf.
           parse_pdb fs pdb = Inr (a, f0) \<and> fs_read fs traj = Some (DCD frames) \<and>
           frames \<noteq> [] \<and> parse_pdb fs (rmsd_reference_pdb cfg) = Inr (ra, rf) \<and>
           cms = map (\<lambda>f. frame_rows e (cutoff_angstrom cfg) (dimensions (hd frames))
                            (aligned_positions e cfg a (ref_positions_of e cfg ra rf) f) @
                          frame_cols e (cutoff_angstrom cfg) (dimensions (hd frames))
                            (aligned_positions e cfg a (ref_positions_of e cfg ra rf) f)) frames \<and>
           rmsds = map (\<lambda>f. rmsd e (aligned_positions e cfg a (ref_positions_of e cfg ra rf) f)
                              (ref_positions_of e cfg ra rf)) frames"
proof -
  from assms obtain u where u: "load_universe fs pdb (Some traj) = Inr u"
    by (auto simp: analyze_simulation_def split: sum.splits)
  from assms u obtain ru where ru: "load_universe fs (rmsd_reference_pdb cfg) None = Inr ru"
    by (auto simp: analyze_simulation_def split: sum.splits)
  from assms u ru obtain al where al: "align_traj e u ru (mda_selection cfg) = Inr al"
    and res: "(cms, rmsds) = analyze_universe e cfg al ru"
    by (auto simp: analyze_simulation_def split: sum.splits)
  from load_universe_traj_Inr[OF u] obtain a f0 frames where
    p: "parse_pdb fs pdb = Inr (a, f0)" and r: "fs_read fs traj = Some (DCD frames)"
    and ne: "frames \<noteq> []" and ueq: "u = \<lparr>u_atoms = a, u_frames = frames, u_ts = 0\<rparr>"
    by blast
  from load_universe_single_Inr[OF ru] obtain ra rf where
    rp: "parse_pdb fs (rmsd_reference_pdb cfg) = Inr (ra, rf)"
    and rueq: "ru = \<lparr>u_atoms = ra, u_frames = [rf], u_ts = 0\<rparr>"
    by blast
  let ?idx = "select_atoms e (mda_selection cfg) a"
  let ?rp = "ref_positions_of e cfg ra rf"
  from al have aleq: "al = \<lparr>u_atoms = a, u_frames = map (align_frame e ?idx ?rp) frames, u_ts = 0\<rparr>"
    by (auto simp: align_traj_def Let_def ueq rueq ref_positions_of_def split: if_splits)
  from res have "cms = fst (analyze_universe e cfg al ru)" "rmsds = snd (analyze_universe e cfg al ru)"
    by (metis fst_conv, metis snd_conv)
  then have "cms = map (\<lambda>f. frame_rows e (cutoff_angstrom cfg) (dimensions (hd frames))
                            (aligned_positions e cfg a ?rp f) @
                          frame_cols e (cutoff_angstrom cfg) (dimensions (hd frames))
                            (aligned_positions e cfg a ?rp f)) frames"
    and "rmsds = map (\<lambda>f. rmsd e (aligned_positions e cfg a ?rp f) ?rp) frames"
    by (simp_all add: analyze_universe_eq aleq rueq dimensions_aligned_first[OF ne]
        aligned_positions_def ref_positions_of_def comp_def)
  with p r ne rp show ?thesis by blast
qed

subsection \<open>Index width\<close>

lemma coo_entries_bounds:
  assumes "(i, j) \<in> set (coo_entries (contact_matrix e pos c box))"
  shows "0 \<le> i \<and> i < int (length pos) \<and> 0 \<le> j \<and> j < int (length pos)"
  using assms by (auto simp: coo_entries_def contact_matrix_def)

lemma sint_int16_exact:
  assumes "0 \<le> x" and "x < 32768"
  shows "sint (word_of_int x :: 16 word) = x"
  using assms by (simp add: sint_sbintrunc' signed_take_bit_int_eq_self)

lemma map_sint_astype_int16:
  assumes "\<forall>x \<in> set xs. 0 \<le> x \<and> x < 32768"
  shows "map sint (astype_int16 xs) = xs"
  using assms by (induction xs) (simp_all add: astype_int16_def sint_int16_exact)

lemma int16_rows_cols_exact:
  assumes "length pos \<le> 32767"
  shows "map sint (frame_rows e c box pos) = coo_row (contact_matrix e pos c box)"
    and "map sint (frame_cols e c box pos) = coo_col (contact_matrix e pos c box)"
proof -
  have "\<forall>x \<in> set (coo_row (contact_matrix e pos c box)). 0 \<le> x \<and> x < 32768"
    using coo_entries_bounds[of _ _ e pos c box] assms by (fastforce simp: coo_row_def)
  then show "map sint (frame_rows e c box pos) = coo_row (contact_matrix e pos c box)"
    unfolding frame_rows_def by (rule map_sint_astype_int16)
  have "\<forall>x \<in> set (coo_col (contact_matrix e pos c box)). 0 \<le> x \<and> x < 32768"
    using coo_entries_bounds[of _ _ e pos c box] assms by (fastforce simp: coo_col_def)
  then show "map sint (frame_cols e c box pos) = coo_col (contact_matrix e pos c box)"
    unfolding frame_cols_def by (rule map_sint_astype_int16)
qed

lemma length_aligned_positions [simp]:
  "length (aligned_positions e cfg a rp f) = length (select_atoms e (mda_selection cfg) a)"
  by (simp add: aligned_positions_def atom_positions_def)

lemmas analysis_eval =
  analyze_simulation_def load_universe_def parse_pdb_def fs_read_def align_traj_def
  select_atoms_def atom_positions_def align_frame_def analyze_universe_eq frame_rows_def
  frame_cols_def astype_int16_def coo_row_def coo_col_def coo_entries_def contact_matrix_def
  demo_env_def demo_settings_def demo_disk_def demo_frame_def min_image_def Let_def

lemma demo_analysis:
  "analyze_simulation demo_env demo_settings demo_disk
     [''out'', ''run-a'', ''sys.pdb''] [''out'', ''run-a'', ''sim.dcd''] =
   Inr ([[0, 0, 1, 1, 0, 1, 0, 1], [0, 0, 1, 1, 0, 1, 0, 1], [0, 0, 1, 1, 0, 1, 0, 1],
         [0, 0, 1, 1, 0, 1, 0, 1]], [0, 0, 0, 0])"
  by (simp add: analysis_eval)

lemma demo_analysis_files:
  "fs_read demo_disk [''out'', ''run-a'', ''sim.dcd''] =
     Some (DCD [demo_frame 10, demo_frame 20, demo_frame 30, demo_frame 40])"
  "parse_pdb demo_disk [''out'', ''run-a'', ''sys.pdb''] = Inr ([''CA'', ''CA''], demo_frame 10)"
  "parse_pdb demo_disk (rmsd_reference_pdb demo_settings) = Inr ([''CA'', ''CA''], demo_frame 10)"
  by (simp_all add: parse_pdb_def fs_read_def demo_disk_def demo_settings_def)

subsection \<open>One entry per frame\<close>

text \<open>
  Claim C6. When the analysis of a trajectory of \<open>F\<close> frames returns, the contact maps
  and the RMSD values both have \<open>F\<close> entries, in the order of the frames; the entry
  \<open>k\<close> of the contact maps is the row index array of the frame \<open>k\<close> followed by its column
  index array, and the entry \<open>k\<close> of the RMSD values is the RMSD of the frame \<open>k\<close> to the
  reference positions.
\<close>

theorem analysis_one_entry_per_frame:
  assumes "analyze_simulation e cfg fs pdb traj = Inr (contact_maps, rmsds)"
    and "fs_read fs traj = Some (DCD frames)"
    and "parse_pdb fs pdb = Inr (a, f0)"
    and "parse_pdb fs (rmsd_reference_pdb cfg) = Inr (ra, rf)"
  shows "length contact_maps = length frames \<and> length rmsds = length frames \<and>
         (\<forall>k < length frames.
            (\<exists>box. contact_maps ! k =
               frame_rows e (cutoff_angstrom cfg) box
                 (aligned_positions e cfg a (ref_positions_of e cfg ra rf) (frames ! k)) @
               frame_cols e (cutoff_angstrom cfg) box
                 (aligned_positions e cfg a (ref_positions_of e cfg ra rf) (frames ! k))) \<and>
            rmsds ! k =
              rmsd e (aligned_positions e cfg a (ref_positions_of e cfg ra rf) (frames ! k))
                (ref_positions_of e cfg ra rf))"
proof -
  from analyze_simulation_Inr[OF assms(1)] assms(2-4)
  have cm: "contact_maps =
      map (\<lambda>f. frame_rows e (cutoff_angstrom cfg) (dimensions (hd frames))
                 (aligned_positions e cfg a (ref_positions_of e cfg ra rf) f) @
               frame_cols e (cutoff_angstrom cfg) (dimensions (hd frames))
                 (aligned_positions e cfg a (ref_positions_of e cfg ra rf) f)) frames"
    and rm: "rmsds =
      map (\<lambda>f. rmsd e (aligned_positions e cfg a (ref_positions_of e cfg ra rf) f)
                 (ref_positions_of e cfg ra rf)) frames"
    by auto
  show ?thesis
  proof (intro conjI allI impI)
    show "length contact_maps = length frames" by (simp add: cm)
    show "length rmsds = length frames" by (simp add: rm)
  next
    fix k assume k: "k < length frames"
    show "\<exists>box. contact_maps ! k =
               frame_rows e (cutoff_angstrom cfg) box
                 (aligned_positions e cfg a (ref_positions_of e cfg ra rf) (frames ! k)) @
               frame_cols e (cutoff_angstrom cfg) box
                 (aligned_positions e cfg a (ref_positions_of e cfg ra rf) (frames ! k))"
      using k by (auto simp: cm)
    show "rmsds ! k =
              rmsd e (aligned_positions e cfg a (ref_positions_of e cfg ra rf) (frames ! k))
                (ref_positions_of e cfg ra rf)"
      using k by (simp add: rm)
  qed
qed

text \<open>
  The instance of C6 on the trajectory of four frames in \<^verbatim>\<open>out/run-a\<close>.
\<close>

theorem analysis_one_entry_per_frame_witness:
  "analyze_simulation demo_env demo_settings demo_disk
     [''out'', ''run-a'', ''sys.pdb''] [''out'', ''run-a'', ''sim.dcd''] =
   Inr ([[0, 0, 1, 1, 0, 1, 0, 1], [0, 0, 1, 1, 0, 1, 0, 1], [0, 0, 1, 1, 0, 1, 0, 1],
         [0, 0, 1, 1, 0, 1, 0, 1]], [0, 0, 0, 0]) \<and>
   fs_read demo_disk [''out'', ''run-a'', ''sim.dcd''] =
     Some (DCD [demo_frame 10, demo_frame 20, demo_frame 30, demo_frame 40]) \<and>
   length [[0, 0, 1, 1, 0, 1, 0, 1], [0, 0, 1, 1, 0, 1, 0, 1], [0, 0, 1, 1, 0, 1, 0, 1],
           [0, 0, 1, 1, 0, 1, 0, 1 :: 16 word]] =
     length [demo_frame 10, demo_frame 20, demo_frame 30, demo_frame 40] \<and>
   length [0, 0, 0, 0 :: real] =
     length [demo_frame 10, demo_frame 20, demo_frame 30, demo_frame 40] \<and>
   (2::nat) < length [demo_frame 10, demo_frame 20, demo_frame 30, demo_frame 40] \<and>
   (\<exists>box. [[0, 0, 1, 1, 0, 1, 0, 1], [0, 0, 1, 1, 0, 1, 0, 1], [0, 0, 1, 1, 0, 1, 0, 1],
           [0, 0, 1, 1, 0, 1, 0, 1]] ! 2 =
      frame_rows demo_env (cutoff_angstrom demo_settings) box
        (aligned_positions demo_env demo_settings [''CA'', ''CA'']
           (ref_positions_of demo_env demo_settings [''CA'', ''CA''] (demo_frame 10))
           ([demo_frame 10, demo_frame 20, demo_frame 30, demo_frame 40] ! 2)) @
      frame_cols demo_env (cutoff_angstrom demo_settings) box
        (aligned_positions demo_env demo_settings [''CA'', ''CA'']
           (ref_positions_of demo_env demo_settings [''CA'', ''CA''] (demo_frame 10))
           ([demo_frame 10, demo_frame 20, demo_frame 30, demo_frame 40] ! 2))) \<and>
   [0, 0, 0, 0] ! 2 =
     rmsd demo_env
       (aligned_positions demo_env demo_settings [''CA'', ''CA'']
          (ref_positions_of demo_env demo_settings [''CA'', ''CA''] (demo_frame 10))
          ([demo_frame 10, demo_frame 20, demo_frame 30, demo_frame 40] ! 2))
       (ref_positions_of demo_env demo_settings [''CA'', ''CA''] (demo_frame 10))"
proof -
  have k: "(2::nat) < length [demo_frame 10, demo_frame 20, demo_frame 30, demo_frame 40]"
    by simp
  from analysis_one_entry_per_frame [OF demo_analysis demo_analysis_files(1)
      demo_analysis_files(2) demo_analysis_files(3)] k demo_analysis demo_analysis_files(1)
  show ?thesis by blast
qed

subsection \<open>Stored indices\<close>

text \<open>
  Claim C8. When at most 32767 atoms are selected, the 16-bit values stored for a frame,
  read as signed numbers, are exactly the row indices followed by the column indices
  of the contact matrix of that frame: no index is changed by the conversion.
\<close>

theorem stored_contact_indices_exact:
  assumes "analyze_simulation e cfg fs pdb traj = Inr (contact_maps, rmsds)"
    and "fs_read fs traj = Some (DCD frames)"
    and "parse_pdb fs pdb = Inr (a, f0)"
    and "parse_pdb fs (rmsd_reference_pdb cfg) = Inr (ra, rf)"
    and "length (select_atoms e (mda_selection cfg) a) \<le> 32767"
    and "k < length frames"
  shows "map sint (contact_maps ! k) =
           coo_row (contact_matrix e
                      (aligned_positions e cfg a (ref_positions_of e cfg ra rf) (frames ! k))
                      (cutoff_angstrom cfg) (dimensions (hd frames))) @
           coo_col (contact_matrix e
                      (aligned_positions e cfg a (ref_positions_of e cfg ra rf) (frames ! k))
                      (cutoff_angstrom cfg) (dimensions (hd frames)))"
proof -
  from analyze_simulation_Inr[OF assms(1)] assms(2-4)
  have cm: "contact_maps =
      map (\<lambda>f. frame_rows e (cutoff_angstrom cfg) (dimensions (hd frames))
                 (aligned_positions e cfg a (ref_positions_of e cfg ra rf) f) @
               frame_cols e (cutoff_angstrom cfg) (dimensions (hd frames))
                 (aligned_positions e cfg a (ref_positions_of e cfg ra rf) f)) frames"
    by auto
  have len: "length (aligned_positions e cfg a (ref_positions_of e cfg ra rf) (frames ! k)) \<le> 32767"
    using assms(5) by simp
  show ?thesis
    using assms(6) by (simp add: cm int16_rows_cols_exact[OF len])
qed

text \<open>
  The instance of C8 on the second frame of the trajectory in \<^verbatim>\<open>out/run-a\<close>.
\<close>

theorem stored_contact_indices_exact_witness:
  "analyze_simulation demo_env demo_settings demo_disk
     [''out'', ''run-a'', ''sys.pdb''] [''out'', ''run-a'', ''sim.dcd''] =
   Inr ([[0, 0, 1, 1, 0, 1, 0, 1], [0, 0, 1, 1, 0, 1, 0, 1], [0, 0, 1, 1, 0, 1, 0, 1],
         [0, 0, 1, 1, 0, 1, 0, 1]], [0, 0, 0, 0]) \<and>
   length (select_atoms demo_env (mda_selection demo_settings) [''CA'', ''CA'']) \<le> 32767 \<and>
   (1::nat) < length [demo_frame 10, demo_frame 20, demo_frame 30, demo_frame 40] \<and>
   map sint ([[0, 0, 1, 1, 0, 1, 0, 1], [0, 0, 1, 1, 0, 1, 0, 1], [0, 0, 1, 1, 0, 1, 0, 1],
              [0, 0, 1, 1, 0, 1, 0, 1 :: 16 word]] ! 1) = [0, 0, 1, 1, 0, 1, 0, 1]"
proof -
  have h5: "length (select_atoms demo_env (mda_selection demo_settings) [''CA'', ''CA'']) \<le> 32767"
    by (simp add: select_atoms_def demo_env_def)
  have h6: "(1::nat) < length [demo_frame 10, demo_frame 20, demo_frame 30, demo_frame 40]"
    by simp
  have ev: "coo_row (contact_matrix demo_env
               (aligned_positions demo_env demo_settings [''CA'', ''CA'']
                  (ref_positions_of demo_env demo_settings [''CA'', ''CA''] (demo_frame 10))
                  ([demo_frame 10, demo_frame 20, demo_frame 30, demo_frame 40] ! 1))
               (cutoff_angstrom demo_settings)
               (dimensions (hd [demo_frame 10, demo_frame 20, demo_frame 30, demo_frame 40]))) @
            coo_col (contact_matrix demo_env
               (aligned_positions demo_env demo_settings [''CA'', ''CA'']
                  (ref_positions_of demo_env demo_settings [''CA'', ''CA''] (demo_frame 10))
                  ([demo_frame 10, demo_frame 20, demo_frame 30, demo_frame 40] ! 1))
               (cutoff_angstrom demo_settings)
               (dimensions (hd [demo_frame 10, demo_frame 20, demo_frame 30, demo_frame 40]))) =
            [0, 0, 1, 1, 0, 1, 0, 1]"
    by (simp add: analysis_eval aligned_positions_def ref_positions_of_def)
  from stored_contact_indices_exact [OF demo_analysis demo_analysis_files(1)
      demo_analysis_files(2) demo_analysis_files(3) h5 h6]
  show ?thesis using demo_analysis h5 h6 unfolding ev by blast
qed

subsection \<open>The box of the contact computation\<close>

text \<open>
  Claim C2 is not met by the code. \<^verbatim>\<open>analyze_simulation\<close> reads the box once, at line
  380, before the loop over the frames, and passes that value to \<^verbatim>\<open>contact_matrix\<close> for
  every frame (line 385); only the positions are read per frame. The trajectory in
  \<^verbatim>\<open>out/run-a\<close> has two atoms 8 apart on the x axis and a cutoff of 3; its first frame
  has a box of edge 10, in which the two atoms are in contact through the boundary, and
  its second frame a box of edge 20, in which they are not. The analysis reports the
  contact for the second frame too, the entry \<^verbatim>\<open>[0, 0, 1, 1, 0, 1, 0, 1]\<close>: it is the
  result for the box of the first frame, where the frame's own box gives
  \<^verbatim>\<open>[0, 1, 0, 1]\<close>.
\<close>

theorem later_frame_uses_first_frame_box:
  "(case analyze_simulation demo_env demo_settings demo_disk
           [''out'', ''run-a'', ''sys.pdb''] [''out'', ''run-a'', ''sim.dcd''] of
      Inl err \<Rightarrow> False
    | Inr (contact_maps, rmsds) \<Rightarrow> contact_maps ! 1 = [0, 0, 1, 1, 0, 1, 0, 1]) \<and>
   fs_read demo_disk [''out'', ''run-a'', ''sim.dcd''] =
     Some (DCD [demo_frame 10, demo_frame 20, demo_frame 30, demo_frame 40]) \<and>
   frame_rows demo_env (cutoff_angstrom demo_settings) (dimensions (demo_frame 20))
     (positions (demo_frame 20)) @
   frame_cols demo_env (cutoff_angstrom demo_settings) (dimensions (demo_frame 20))
     (positions (demo_frame 20)) = [0, 1, 0, 1] \<and>
   frame_rows demo_env (cutoff_angstrom demo_settings) (dimensions (demo_frame 10))
     (positions (demo_frame 20)) @
   frame_cols demo_env (cutoff_angstrom demo_settings) (dimensions (demo_frame 10))
     (positions (demo_frame 20)) = [0, 0, 1, 1, 0, 1, 0, 1]"
  by (simp add: analysis_eval)

subsection \<open>Stepping\<close>

lemma write_report_other:
  "write_report e s fs r = Inr fs' \<Longrightarrow> p \<noteq> reporter_file r \<Longrightarrow> fs_read fs' p = fs_read fs p"
  by (cases r) (auto simp: fs_read_write split: if_splits)

lemma write_reports_other:
  assumes "p \<notin> reporter_file ` set rs"
  shows "write_reports e s fs rs = Inr fs' \<Longrightarrow> fs_read fs' p = fs_read fs p"
    and "write_reports e s fs rs = Inl (err, fs') \<Longrightarrow> fs_read fs' p = fs_read fs p"
  using assms
proof (induction rs arbitrary: fs)
  case Nil
  { case 1 then show ?case by simp }
  { case 2 then show ?case by simp }
next
  case (Cons r rs)
  { case 1
    then show ?case
      using Cons.IH(1)[of _] write_report_other[of e s fs r _ p]
      by (auto split: sum.splits) }
  { case 2
    then show ?case
      using Cons.IH(2)[of _] write_report_other[of e s fs r _ p]
      by (auto split: sum.splits) }
qed

lemma step_loop_frame:
  assumes "step_loop e n s fs = Inr (s', fs') \<or> step_loop e n s fs = Inl (err, s', fs')"
  shows "(\<exists>c. s' = s\<lparr>currentStep := c\<rparr>) \<and>
         (\<forall>p. p \<notin> reporter_file ` set (reporters s) \<longrightarrow> fs_read fs' p = fs_read fs p)"
  using assms
proof (induction n arbitrary: s fs)
  case 0
  then have "s' = s" "fs' = fs" by auto
  then show ?case by (auto intro: exI[of _ "currentStep s"])
next
  case (Suc n)
  let ?s1 = "s\<lparr>currentStep := Suc (currentStep s)\<rparr>"
  show ?case
  proof (cases "write_reports e ?s1 fs (reporters ?s1)")
    case (Inl x)
    obtain err1 fs1 where x: "x = (err1, fs1)" by (cases x)
    from Suc.prems Inl x have eq: "s' = ?s1" "fs' = fs1" by (auto simp: Let_def)
    have "\<forall>p. p \<notin> reporter_file ` set (reporters s) \<longrightarrow> fs_read fs1 p = fs_read fs p"
      using write_reports_other(2)[of _ "reporters ?s1" e ?s1 fs err1 fs1] Inl x by auto
    with eq show ?thesis by auto
  next
    case (Inr fs1)
    from Suc.prems Inr have
      "step_loop e n ?s1 fs1 = Inr (s', fs') \<or> step_loop e n ?s1 fs1 = Inl (err, s', fs')"
      by (auto simp: Let_def)
    from Suc.IH[OF this] obtain c where c: "s' = ?s1\<lparr>currentStep := c\<rparr>"
      and k: "\<forall>p. p \<notin> reporter_file ` set (reporters ?s1) \<longrightarrow> fs_read fs' p = fs_read fs1 p"
      by auto
    have "\<forall>p. p \<notin> reporter_file ` set (reporters s) \<longrightarrow> fs_read fs1 p = fs_read fs p"
      using write_reports_other(1)[of _ "reporters ?s1" e ?s1 fs fs1] Inr by auto
    with c k show ?thesis by auto
  qed
qed

lemma sim_step_frame:
  assumes "sim_step e n s fs = Inr (s', fs') \<or> sim_step e n s fs = Inl (err, s', fs')"
  shows "(\<exists>c. s' = s\<lparr>currentStep := c\<rparr>) \<and>
         (\<forall>p. p \<notin> reporter_file ` set (reporters s) \<longrightarrow> fs_read fs' p = fs_read fs p)"
proof (cases "0 < n \<and> (\<exists>r \<in> set (reporters s). reporter_interval r = 0)")
  case True
  with assms have "s' = s" "fs' = fs" by (auto simp: sim_step_def)
  then show ?thesis by (auto intro: exI[of _ "currentStep s"])
next
  case False
  with assms have
    "step_loop e (nat n) s fs = Inr (s', fs') \<or> step_loop e (nat n) s fs = Inl (err, s', fs')"
    by (auto simp: sim_step_def)
  from step_loop_frame[OF this] show ?thesis .
qed

text \<open>
  With the two reporters of \<^verbatim>\<open>run\<close> at an interval of one step, the first step writes
  its frame and then fails in the log reporter.
\<close>

lemma step_loop_first_report:
  assumes "reporters s = [DCDReporter traj 1, StateDataReporter lg 1]"
    and "system s \<noteq> AmberImplicitPrmtop" and "0 < n"
  shows "step_loop e n s fs =
           Inl (AttributeError, s\<lparr>currentStep := Suc (currentStep s)\<rparr>,
                fs_write fs traj
                  (DCD (dcd_frames fs traj @
                        [engine_frame e (s\<lparr>currentStep := Suc (currentStep s)\<rparr>)])))"
proof -
  from assms(3) obtain m where "n = Suc m" by (cases n) auto
  then show ?thesis using assms(1,2) by (simp add: Let_def report_due_def)
qed

subsection \<open>A whole run\<close>

lemma initialize_run_frame:
  assumes "initialize_run e st start = Inr st1"
  shows "config st1 = config st" and "workdir st1 = workdir st"
    and "persistent_dir st1 = persistent_dir st" and "\<exists>s. sim st1 = Cached s"
    and "\<forall>r. path_parent r \<noteq> workdir st \<longrightarrow> fs_read (disk st1) r = fs_read (disk st) r"
proof -
  have "config st1 = config st \<and> workdir st1 = workdir st \<and>
        persistent_dir st1 = persistent_dir st \<and> (\<exists>s. sim st1 = Cached s) \<and>
        (\<forall>r. path_parent r \<noteq> workdir st \<longrightarrow> fs_read (disk st1) r = fs_read (disk st) r)"
  proof (cases start)
    case ContinueSimulation
    with assms have "initialize_run e st ContinueSimulation = Inr st1" by simp
    from initialize_run_continue_Inr[OF this] show ?thesis by auto
  next
    case (SimulationFromPDB p t)
    with assms have "init_simulation_from_pdb e st p t = Inr st1" by simp
    from init_simulation_from_pdb_Inr[OF this] show ?thesis by auto
  next
    case (SimulationFromRestart d k)
    with assms have "init_simulation_from_restart e st d k = Inr st1" by simp
    from init_simulation_from_restart_Inr[OF this] obtain old_pdb a frames fs1 s where
      fs1: "\<forall>r. path_parent r \<noteq> workdir st \<longrightarrow> fs_read fs1 r = fs_read (disk st) r"
      and st1: "st1 = st\<lparr>top_file := map_option (\<lambda>q. workdir st @ [path_name q])
                                   (find_top_file (disk st) d),
                     pdb_file := Some (workdir st @ [pdb_name old_pdb k]),
                     disk := fs_write fs1 (workdir st @ [pdb_name old_pdb k])
                               (PDB a (frames ! nat (if k < 0 then int (length frames) + k else k))),
                     sim := Cached s,
                     events := events st @ release_events (sim st) @ [Built s]\<rparr>"
      by blast
    have "\<forall>r. path_parent r \<noteq> workdir st \<longrightarrow> fs_read (disk st1) r = fs_read (disk st) r"
      using fs1 by (auto simp: st1 fs_read_write)
    then show ?thesis by (simp add: st1)
  qed
  then show "config st1 = config st" and "workdir st1 = workdir st"
    and "persistent_dir st1 = persistent_dir st" and "\<exists>s. sim st1 = Cached s"
    and "\<forall>r. path_parent r \<noteq> workdir st \<longrightarrow> fs_read (disk st1) r = fs_read (disk st) r"
    by blast+
qed

lemma outside_dir: "path_parent p \<noteq> d \<Longrightarrow> p \<noteq> d @ [n]"
  by (auto simp: path_parent_def)

lemma analyze_and_save_frame:
  "sim (state_after (analyze_and_save e st)) = sim st \<and>
   (\<forall>p. path_parent p \<noteq> workdir st \<longrightarrow>
        fs_read (disk (state_after (analyze_and_save e st))) p = fs_read (disk st) p)"
  by (auto simp: analyze_and_save_def state_after_def Let_def fs_read_write
      split: option.splits sum.splits)

lemma run_stages_frame:
  assumes "sim st1 = Cached s0"
  shows "\<exists>s'. sim (state_after (run_stages e st1 rs n)) = Cached s' \<and>
              reporters s' = [DCDReporter (workdir st1 @ [''sim.dcd'']) rs,
                              StateDataReporter (workdir st1 @ [''sim.log'']) rs] \<and>
              (\<forall>p. path_parent p \<noteq> workdir st1 \<longrightarrow>
                   fs_read (disk (state_after (run_stages e st1 rs n))) p = fs_read (disk st1) p)"
proof -
  let ?traj = "workdir st1 @ [''sim.dcd'']"
  let ?lg = "workdir st1 @ [''sim.log'']"
  let ?s3 = "s0\<lparr>reporters := [DCDReporter ?traj rs, StateDataReporter ?lg rs]\<rparr>"
  let ?fs1 = "fs_write (disk st1) ?traj (DCD [])"
  let ?st2 = "st1\<lparr>sim := Cached ?s3, disk := ?fs1\<rparr>"
  have a: "attach_reporters st1 rs = Inr ?st2"
    using assms by (simp add: attach_reporters_def Let_def)
  have keep1: "\<forall>p. path_parent p \<noteq> workdir st1 \<longrightarrow> fs_read ?fs1 p = fs_read (disk st1) p"
    by (auto simp: fs_read_write)
  show ?thesis
  proof (cases "sim_step e n ?s3 ?fs1")
    case (Inl x)
    obtain err s' fs' where x: "x = (err, s', fs')" by (cases x)
    from sim_step_frame[of e n ?s3 ?fs1 s' fs' err] Inl x obtain c where
      s': "s' = ?s3\<lparr>currentStep := c\<rparr>"
      and k: "\<forall>p. p \<notin> reporter_file ` set (reporters ?s3) \<longrightarrow> fs_read fs' p = fs_read ?fs1 p"
      by auto
    have r: "run_stages e st1 rs n = Inl (err, ?st2\<lparr>sim := Cached s', disk := fs'\<rparr>)"
      using Inl x by (simp add: run_stages_def a step_cached_def)
    have "\<forall>p. path_parent p \<noteq> workdir st1 \<longrightarrow> fs_read fs' p = fs_read (disk st1) p"
      using k keep1 outside_dir[of _ "workdir st1"] by auto
    then show ?thesis by (simp add: r state_after_def s')
  next
    case (Inr y)
    obtain s' fs' where y: "y = (s', fs')" by (cases y)
    from sim_step_frame[of e n ?s3 ?fs1 s' fs'] Inr y obtain c where
      s': "s' = ?s3\<lparr>currentStep := c\<rparr>"
      and k: "\<forall>p. p \<notin> reporter_file ` set (reporters ?s3) \<longrightarrow> fs_read fs' p = fs_read ?fs1 p"
      by auto
    let ?st3 = "?st2\<lparr>sim := Cached s', disk := fs'\<rparr>"
    have r: "run_stages e st1 rs n = analyze_and_save e ?st3"
      using Inr y by (simp add: run_stages_def a step_cached_def)
    have k3: "\<forall>p. path_parent p \<noteq> workdir st1 \<longrightarrow> fs_read fs' p = fs_read (disk st1) p"
      using k keep1 outside_dir[of _ "workdir st1"] by auto
    from analyze_and_save_frame[of e ?st3] k3 show ?thesis
      by (simp add: r s')
  qed
qed

lemma step_loop_first_report_attached:
  assumes "sy \<noteq> AmberImplicitPrmtop" and "0 < n"
  shows "step_loop e n
           \<lparr>topology = t, system = sy, integrator = ig, platform = pl,
              platform_properties = pp, context_positions = cp, minimized = mi,
              velocities = ve, currentStep = c,
              reporters = [DCDReporter traj 1, StateDataReporter lg 1]\<rparr> fs =
           Inl (AttributeError,
                \<lparr>topology = t, system = sy, integrator = ig, platform = pl,
                   platform_properties = pp, context_positions = cp, minimized = mi,
                   velocities = ve, currentStep = Suc c,
                   reporters = [DCDReporter traj 1, StateDataReporter lg 1]\<rparr>,
                fs_write fs traj
                  (DCD (dcd_frames fs traj @
                        [engine_frame e
                           \<lparr>topology = t, system = sy, integrator = ig, platform = pl,
                              platform_properties = pp, context_positions = cp,
                              minimized = mi, velocities = ve, currentStep = Suc c,
                              reporters = [DCDReporter traj 1, StateDataReporter lg 1]\<rparr>])))"
  using step_loop_first_report[of "\<lparr>topology = t, system = sy, integrator = ig, platform = pl,
              platform_properties = pp, context_positions = cp, minimized = mi,
              velocities = ve, currentStep = c,
              reporters = [DCDReporter traj 1, StateDataReporter lg 1]\<rparr>"
      traj lg n e fs] assms
  by simp

lemmas run_eval =
  run_def run_stages_def attach_reporters_def step_cached_def sim_step_def
  run_nsteps_def run_report_steps_def py_int_def state_after_def
  step_loop_first_report_attached

lemma demo_run_fails:
  "run demo_env demo_app (SimulationFromPDB [''data'', ''sys.pdb''] None) =
     Inl (AttributeError, state_after (run demo_env demo_app
                                         (SimulationFromPDB [''data'', ''sys.pdb''] None)))"
  by (simp add: run_eval demo_eval dcd_frames_def)

lemma demo_first_run_eval:
  "workdir demo_first_run = [''out'', ''run-c'']"
  "config demo_first_run = demo_settings"
  "\<exists>s. sim demo_first_run = Cached s \<and> currentStep s = 1 \<and>
       reporters s = [DCDReporter [''out'', ''run-b'', ''sim.dcd''] 1,
                      StateDataReporter [''out'', ''run-b'', ''sim.log''] 1]"
  "fs_read (disk demo_first_run) [''out'', ''run-b'', ''sim.dcd''] = Some (DCD [demo_frame 10])"
  "fs_read (disk demo_first_run) [''out'', ''run-b'', ''sim.log''] = None"
  "fs_read (disk demo_first_run) [''out'', ''run-b'', ''contact_map.npy''] = None"
  by (simp_all add: demo_first_run_def run_eval demo_eval dcd_frames_def)

lemma demo_second_start_run:
  "initialize_run demo_env demo_first_run ContinueSimulation = Inr demo_second_start"
  by (simp add: demo_second_start_def demo_first_run_def run_eval demo_eval dcd_frames_def)
subsection \<open>The reporters of a run\<close>

text \<open>
  Claim C10. \<^verbatim>\<open>run\<close> empties the reporter list of the cached engine (line 333) before
  it attaches the trajectory reporter and the log reporter (lines 334-345). Whenever
  the start condition is handled and the time step is not zero, the engine that
  \<^verbatim>\<open>run\<close> leaves behind, whether the call returns or raises later on, carries exactly
  these two reporters, on \<^verbatim>\<open>sim.dcd\<close> and \<^verbatim>\<open>sim.log\<close> of the working directory of this
  run and in this order, whatever reporters the engine carried before; and every file
  outside the working directory of this run, the files of the reporters of earlier runs
  among them, holds what it held before the call.
\<close>

theorem run_resets_reporters_before_attaching:
  assumes "initialize_run e st start = Inr st1" and "dt_ps (config st) \<noteq> 0"
  shows "\<exists>s'. sim (state_after (run e st start)) = Cached s' \<and>
              reporters s' =
                [DCDReporter (workdir st @ [''sim.dcd'']) (run_report_steps e (config st)),
                 StateDataReporter (workdir st @ [''sim.log'']) (run_report_steps e (config st))] \<and>
              (\<forall>p. path_parent p \<noteq> workdir st \<longrightarrow>
                   fs_read (disk (state_after (run e st start))) p = fs_read (disk st) p)"
proof -
  from initialize_run_frame[OF assms(1)] obtain s0 where
    c: "config st1 = config st" and w: "workdir st1 = workdir st"
    and s0: "sim st1 = Cached s0"
    and k1: "\<forall>r. path_parent r \<noteq> workdir st \<longrightarrow> fs_read (disk st1) r = fs_read (disk st) r"
    by blast
  let ?rs = "run_report_steps e (config st)"
  let ?n = "run_nsteps e (config st)"
  have r: "run e st start = run_stages e st1 ?rs ?n"
    using assms by (simp add: run_def c)
  from run_stages_frame[OF s0, of e ?rs ?n] obtain s' where
    a: "sim (state_after (run_stages e st1 ?rs ?n)) = Cached s'"
    and b: "reporters s' = [DCDReporter (workdir st1 @ [''sim.dcd'']) ?rs,
                            StateDataReporter (workdir st1 @ [''sim.log'']) ?rs]"
    and k2: "\<forall>p. path_parent p \<noteq> workdir st1 \<longrightarrow>
               fs_read (disk (state_after (run_stages e st1 ?rs ?n))) p = fs_read (disk st1) p"
    by blast
  have "\<forall>p. path_parent p \<noteq> workdir st \<longrightarrow>
          fs_read (disk (state_after (run e st start))) p = fs_read (disk st) p"
    using k1 k2 by (simp add: r w)
  with a b show ?thesis by (simp add: r w)
qed

text \<open>
  On the installation above: an engine that an earlier run in \<^verbatim>\<open>out/run-b\<close> left with
  its two reporters is continued in \<^verbatim>\<open>out/run-c\<close>; afterwards it carries the two
  reporters of \<^verbatim>\<open>out/run-c\<close> only, and the trajectory of the earlier run still holds
  its one frame.
\<close>

theorem run_resets_reporters_before_attaching_witness:
  "initialize_run demo_env demo_first_run ContinueSimulation = Inr demo_second_start \<and>
   dt_ps (config demo_first_run) \<noteq> 0 \<and>
   workdir demo_first_run = [''out'', ''run-c''] \<and>
   (\<exists>s. sim demo_first_run = Cached s \<and>
        reporters s = [DCDReporter [''out'', ''run-b'', ''sim.dcd''] 1,
                       StateDataReporter [''out'', ''run-b'', ''sim.log''] 1]) \<and>
   (\<exists>s'. sim (state_after (run demo_env demo_first_run ContinueSimulation)) = Cached s' \<and>
         reporters s' = [DCDReporter [''out'', ''run-c'', ''sim.dcd''] 1,
                         StateDataReporter [''out'', ''run-c'', ''sim.log''] 1]) \<and>
   fs_read (disk (state_after (run demo_env demo_first_run ContinueSimulation)))
     [''out'', ''run-b'', ''sim.dcd''] = Some (DCD [demo_frame 10])"
proof -
  have dt: "dt_ps (config demo_first_run) \<noteq> 0"
    by (simp add: demo_first_run_eval demo_settings_def)
  have rs: "run_report_steps demo_env (config demo_first_run) = 1"
    by (simp add: demo_first_run_eval demo_settings_def run_report_steps_def py_int_def
        demo_env_def)
  from run_resets_reporters_before_attaching[OF demo_second_start_run dt] obtain s' where
    a: "sim (state_after (run demo_env demo_first_run ContinueSimulation)) = Cached s'"
    and b: "reporters s' =
              [DCDReporter (workdir demo_first_run @ [''sim.dcd''])
                 (run_report_steps demo_env (config demo_first_run)),
               StateDataReporter (workdir demo_first_run @ [''sim.log''])
                 (run_report_steps demo_env (config demo_first_run))]"
    and k: "\<forall>p. path_parent p \<noteq> workdir demo_first_run \<longrightarrow>
              fs_read (disk (state_after (run demo_env demo_first_run ContinueSimulation))) p =
              fs_read (disk demo_first_run) p"
    by blast
  have "path_parent [''out'', ''run-b'', ''sim.dcd''] \<noteq> workdir demo_first_run"
    by (simp add: demo_first_run_eval path_parent_def)
  with k have f: "fs_read (disk (state_after (run demo_env demo_first_run ContinueSimulation)))
             [''out'', ''run-b'', ''sim.dcd''] = Some (DCD [demo_frame 10])"
    by (simp add: demo_first_run_eval(4))
  have b': "reporters s' = [DCDReporter [''out'', ''run-c'', ''sim.dcd''] 1,
                           StateDataReporter [''out'', ''run-c'', ''sim.log''] 1]"
    using b by (simp add: rs demo_first_run_eval(1))
  from a b' have e2: "\<exists>s'. sim (state_after (run demo_env demo_first_run ContinueSimulation)) = Cached s' \<and>
         reporters s' = [DCDReporter [''out'', ''run-c'', ''sim.dcd''] 1,
                         StateDataReporter [''out'', ''run-c'', ''sim.log''] 1]"
    by blast
  from demo_first_run_eval(3) have e1: "\<exists>s. sim demo_first_run = Cached s \<and>
        reporters s = [DCDReporter [''out'', ''run-b'', ''sim.dcd''] 1,
                       StateDataReporter [''out'', ''run-b'', ''sim.log''] 1]"
    by blast
  show ?thesis
    using demo_second_start_run dt demo_first_run_eval(1) e1 e2 f by blast
qed

subsection \<open>The scenario of 0.002 ps steps over 0.01 ns\<close>




end
